theory Spec2Isabelle
  imports Main
begin

text \<open>
  A model of the budgeting dashboard: the page script \<^verbatim>\<open>src/backend/dashboard.js\<close>,
  the script \<^verbatim>\<open>firebase-init.js\<close> that loads and saves the user document
  (\<^verbatim>\<open>src/unnamed/part_000\<close>, whose two copies do the same), and the
  \<^verbatim>\<open>recalculateDashboard\<close> of the later copy of the page script
  (\<^verbatim>\<open>src/unnamed/part_001\<close>). Rendering is left out: a function that only draws
  is modelled by the values it draws.

  The model takes for granted that the elements the handlers look up exist in the
  page, that the documents of the remote collection have the shape the scripts give
  them, and that a remote read or write succeeds and is complete when the handler
  that awaits it goes on.
\<close>

section \<open>JavaScript numbers as the dashboard uses them\<close>

text \<open>
  Every number of the ledger is produced by \<^verbatim>\<open>parseInt\<close>, \<^verbatim>\<open>Date.now()\<close>,
  \<^verbatim>\<open>Math.floor\<close> or \<^verbatim>\<open>Math.ceil\<close>, or by adding and subtracting such numbers.
  These are the integers, the two zeros, the two infinities (a division by zero)
  and NaN (\<^verbatim>\<open>parseInt\<close> of a text without digits). \<open>Fin 0\<close> is the positive zero
  and \<open>NegZero\<close> the negative one.

  The integers are exact as long as they stay within the doubles' exact range
  (absolute value at most \<open>2^53\<close>); on that range the rounded quotient of two integers
  never crosses an integer, so \<^verbatim>\<open>Math.floor(a / b)\<close> and \<^verbatim>\<open>Math.ceil(a / b)\<close> are
  the exact floor and ceiling. The model is about ledgers in that range.
\<close>

datatype jsnum = Fin int | NegZero | PInf | NInf | NaN

text \<open>\<^verbatim>\<open>!!x\<close> of a number: zero and NaN are falsy.\<close>

fun truthy :: "jsnum \<Rightarrow> bool" where
  "truthy (Fin n) = (n \<noteq> 0)"
| "truthy NegZero = False"
| "truthy PInf = True"
| "truthy NInf = True"
| "truthy NaN = False"

text \<open>\<^verbatim>\<open>x || y\<close> on numbers.\<close>

definition js_or :: "jsnum \<Rightarrow> jsnum \<Rightarrow> jsnum" where
  "js_or x y = (if truthy x then x else y)"

fun js_add :: "jsnum \<Rightarrow> jsnum \<Rightarrow> jsnum" where
  "js_add NaN _ = NaN"
| "js_add _ NaN = NaN"
| "js_add PInf NInf = NaN"
| "js_add NInf PInf = NaN"
| "js_add PInf _ = PInf"
| "js_add _ PInf = PInf"
| "js_add NInf _ = NInf"
| "js_add _ NInf = NInf"
| "js_add NegZero NegZero = NegZero"
| "js_add NegZero (Fin b) = Fin b"
| "js_add (Fin a) NegZero = Fin a"
| "js_add (Fin a) (Fin b) = Fin (a + b)"

fun js_neg :: "jsnum \<Rightarrow> jsnum" where
  "js_neg (Fin n) = (if n = 0 then NegZero else Fin (- n))"
| "js_neg NegZero = Fin 0"
| "js_neg PInf = NInf"
| "js_neg NInf = PInf"
| "js_neg NaN = NaN"

definition js_sub :: "jsnum \<Rightarrow> jsnum \<Rightarrow> jsnum" where
  "js_sub x y = js_add x (js_neg y)"

text \<open>The sign bit, and the zeros and infinities of a given sign.\<close>

fun neg_sign :: "jsnum \<Rightarrow> bool" where
  "neg_sign (Fin n) = (n < 0)"
| "neg_sign NegZero = True"
| "neg_sign PInf = False"
| "neg_sign NInf = True"
| "neg_sign NaN = False"

definition is_zero :: "jsnum \<Rightarrow> bool" where
  "is_zero x = (x = Fin 0 \<or> x = NegZero)"

definition is_inf :: "jsnum \<Rightarrow> bool" where
  "is_inf x = (x = PInf \<or> x = NInf)"

definition signed_zero :: "bool \<Rightarrow> jsnum" where
  "signed_zero neg = (if neg then NegZero else Fin 0)"

definition signed_inf :: "bool \<Rightarrow> jsnum" where
  "signed_inf neg = (if neg then NInf else PInf)"

text \<open>
  \<^verbatim>\<open>Math.floor(x / y)\<close> and \<^verbatim>\<open>Math.ceil(x / y)\<close>. The quotient itself is not an
  integer in general, and the dashboard never stores it unrounded; \<open>rnd a b\<close> is the
  rounding of the exact quotient of two non-zero integers.
\<close>

definition js_round_div :: "(int \<Rightarrow> int \<Rightarrow> int) \<Rightarrow> jsnum \<Rightarrow> jsnum \<Rightarrow> jsnum" where
  "js_round_div rnd x y =
     (if x = NaN \<or> y = NaN then NaN
      else if is_inf x \<and> is_inf y then NaN
      else if is_zero x \<and> is_zero y then NaN
      else if is_inf x then signed_inf (neg_sign x \<noteq> neg_sign y)
      else if is_inf y then signed_zero (neg_sign x \<noteq> neg_sign y)
      else if is_zero y then signed_inf (neg_sign x \<noteq> neg_sign y)
      else if is_zero x then signed_zero (neg_sign x \<noteq> neg_sign y)
      else (case (x, y) of
              (Fin a, Fin b) \<Rightarrow>
                (if rnd a b = 0 then signed_zero (neg_sign x \<noteq> neg_sign y)
                 else Fin (rnd a b))
            | _ \<Rightarrow> NaN))"

definition js_floor_div :: "jsnum \<Rightarrow> jsnum \<Rightarrow> jsnum" where
  "js_floor_div = js_round_div (\<lambda>a b. a div b)"

definition js_ceil_div :: "jsnum \<Rightarrow> jsnum \<Rightarrow> jsnum" where
  "js_ceil_div = js_round_div (\<lambda>a b. - ((- a) div b))"

text \<open>\<^verbatim>\<open>Math.abs\<close> and \<^verbatim>\<open>Math.max(0, x)\<close>.\<close>

fun js_abs :: "jsnum \<Rightarrow> jsnum" where
  "js_abs (Fin n) = Fin \<bar>n\<bar>"
| "js_abs NegZero = Fin 0"
| "js_abs PInf = PInf"
| "js_abs NInf = PInf"
| "js_abs NaN = NaN"

fun js_max0 :: "jsnum \<Rightarrow> jsnum" where
  "js_max0 (Fin n) = Fin (max 0 n)"
| "js_max0 NegZero = Fin 0"
| "js_max0 PInf = PInf"
| "js_max0 NInf = Fin 0"
| "js_max0 NaN = NaN"

text \<open>The comparisons \<^verbatim>\<open>x > n\<close> and \<^verbatim>\<open>x >= n\<close> with an integer literal.\<close>

fun js_gt :: "jsnum \<Rightarrow> int \<Rightarrow> bool" where
  "js_gt (Fin a) n = (a > n)"
| "js_gt NegZero n = (0 > n)"
| "js_gt PInf n = True"
| "js_gt NInf n = False"
| "js_gt NaN n = False"

fun js_ge :: "jsnum \<Rightarrow> int \<Rightarrow> bool" where
  "js_ge (Fin a) n = (a \<ge> n)"
| "js_ge NegZero n = (0 \<ge> n)"
| "js_ge PInf n = True"
| "js_ge NInf n = False"
| "js_ge NaN n = False"

subsection \<open>\<^verbatim>\<open>parseInt\<close>\<close>

text \<open>
  Modelled from the runtime (ECMAScript \<^verbatim>\<open>parseInt(string)\<close> with no radix), on
  texts of ASCII characters: leading white space is skipped, then an optional sign,
  then an optional \<^verbatim>\<open>0x\<close> prefix (radix 16), then the longest run of digits; no
  digit gives NaN.
\<close>

definition is_ws :: "char \<Rightarrow> bool" where
  "is_ws c = (of_char c \<in> {9, 10, 11, 12, 13, 32 :: int})"

definition digit_of :: "int \<Rightarrow> char \<Rightarrow> int option" where
  "digit_of radix c =
     (let k = (of_char c :: int);
          d = (if 48 \<le> k \<and> k \<le> 57 then Some (k - 48)
               else if 97 \<le> k \<and> k \<le> 122 then Some (k - 87)
               else if 65 \<le> k \<and> k \<le> 90 then Some (k - 55)
               else None)
      in case d of None \<Rightarrow> None | Some v \<Rightarrow> (if v < radix then Some v else None))"

definition digits_value :: "int \<Rightarrow> string \<Rightarrow> int" where
  "digits_value radix ds =
     foldl (\<lambda>acc c. acc * radix + (case digit_of radix c of Some v \<Rightarrow> v | None \<Rightarrow> 0)) 0 ds"

definition parseInt :: "string \<Rightarrow> jsnum" where
  "parseInt s =
     (let s1 = dropWhile is_ws s;
          neg = (case s1 of c # _ \<Rightarrow> c = CHR ''-'' | [] \<Rightarrow> False);
          s2 = (case s1 of c # r \<Rightarrow> (if c = CHR ''-'' \<or> c = CHR ''+'' then r else s1)
                | [] \<Rightarrow> s1);
          hex = (take 2 s2 = ''0x'' \<or> take 2 s2 = ''0X'');
          radix = (if hex then 16 else 10);
          s3 = (if hex then drop 2 s2 else s2);
          ds = takeWhile (\<lambda>c. digit_of radix c \<noteq> None) s3
      in if ds = [] then NaN
         else if digits_value radix ds = 0 then signed_zero neg
         else Fin (if neg then - digits_value radix ds else digits_value radix ds))"

section \<open>The ledger's data\<close>

text \<open>
  The objects the dashboard creates, with the fields it gives them. A field that the
  code reads with a fallback for a missing value (\<^verbatim>\<open>tx.timestamp || Date.now()\<close>)
  keeps that fallback in the model: the timestamp \<open>0\<close> and the empty text are the
  falsy values.
\<close>

record transaction =
  tx_date :: string
  tx_timestamp :: int
  tx_merchant :: string
  tx_category :: string
  tx_amount :: jsnum
  tx_icon :: string
  tx_color :: string
  tx_bg :: string
  tx_sentiment :: string

record fixed_expense =
  fe_name :: string
  fe_amount :: jsnum

record goal =
  goal_id :: int
  goal_name :: string
  goal_amount :: jsnum
  goal_deadline :: string
  goal_daily :: jsnum
  goal_daysLeft :: jsnum

record loan =
  loan_id :: int
  loan_type :: string
  loan_person :: string
  loan_amount :: jsnum
  loan_duration :: jsnum
  loan_daily :: jsnum

text \<open>
  Chat messages and group members are carried by the ledger and saved with it; the chat
  handlers themselves are not modelled, so a message keeps only the fields of a text
  message.
\<close>

record message =
  msg_type :: string
  msg_text :: string
  msg_author :: string
  msg_timestamp :: int

record member =
  member_name :: string
  member_phone :: string
  member_email :: string

text \<open>\<^verbatim>\<open>userProfile\<close>: an object whose fields may be missing (\<^verbatim>\<open>{}\<close> at load).\<close>

record profile =
  profile_name :: "string option"
  profile_phone :: "string option"
  profile_avatar :: "string option"
  profile_tempAvatar :: "string option"

text \<open>
  A user document (\<^verbatim>\<open>window.userData\<close>, and the documents of the remote
  \<^verbatim>\<open>users\<close> collection): a flat object, every field of which may be missing.
  \<open>d_displayName\<close>, \<open>d_photoURL\<close>, \<open>d_activeGoals\<close> and \<open>d_activeLoans\<close> are the
  older field names that the hydration still reads.
\<close>

record doc =
  d_name :: "string option"
  d_phone :: "string option"
  d_email :: "string option"
  d_avatar :: "string option"
  d_transactions :: "transaction list option"
  d_fixedExpenses :: "fixed_expense list option"
  d_goals :: "goal list option"
  d_loans :: "loan list option"
  d_chatGroups :: "(string \<rightharpoonup> message list) option"
  d_groupMembers :: "(string \<rightharpoonup> member list) option"
  d_monthlyLimit :: "jsnum option"
  d_createdAt :: "int option"
  d_displayName :: "string option"
  d_photoURL :: "string option"
  d_activeGoals :: "goal list option"
  d_activeLoans :: "loan list option"

definition empty_doc :: doc where
  "empty_doc =
     \<lparr>d_name = None, d_phone = None, d_email = None, d_avatar = None,
      d_transactions = None, d_fixedExpenses = None, d_goals = None, d_loans = None,
      d_chatGroups = None, d_groupMembers = None, d_monthlyLimit = None,
      d_createdAt = None, d_displayName = None, d_photoURL = None,
      d_activeGoals = None, d_activeLoans = None\<rparr>"

text \<open>The messages of \<^verbatim>\<open>window.showToast\<close>, in the order they were shown.\<close>

datatype toast =
    PleaseFillAllDetails      \<comment> \<open>\<^verbatim>\<open>"Please fill all details"\<close>\<close>
  | GoalSet                   \<comment> \<open>\<^verbatim>\<open>"Goal Set! Budget Adjusted."\<close>\<close>
  | GoalRemoved               \<comment> \<open>\<^verbatim>\<open>"Goal removed"\<close>\<close>
  | InvalidExpenseDetails     \<comment> \<open>\<^verbatim>\<open>"Please enter valid expense details"\<close>\<close>
  | SpentAt jsnum string      \<comment> \<open>\<^verbatim>\<open>"Spent <amount> at <merchant>"\<close>\<close>
  | BudgetUpdated             \<comment> \<open>\<^verbatim>\<open>"Budget Updated!"\<close>\<close>
  | RecordAdded               \<comment> \<open>\<^verbatim>\<open>"Record Added!"\<close>\<close>
  | ProfileUpdated            \<comment> \<open>\<^verbatim>\<open>"Profile Updated!"\<close>\<close>

text \<open>
  The page's state: the module variables of \<^verbatim>\<open>dashboard.js\<close>, the globals
  \<^verbatim>\<open>window.userData\<close> and \<^verbatim>\<open>window._uid\<close> that it shares with
  \<^verbatim>\<open>firebase-init.js\<close>, the remote \<^verbatim>\<open>users\<close> collection, and the toasts shown.
  The handlers run to completion one after the other (the page is single-threaded and
  every handler awaits its write), so a handler is a function from state to state.
\<close>

record app =
  userProfile :: profile
  transactions :: "transaction list"
  fixedExpenses :: "fixed_expense list"
  activeGoals :: "goal list"
  activeLoans :: "loan list"
  chatStore :: "string \<rightharpoonup> message list"
  groupMembers :: "string \<rightharpoonup> member list"
  monthlyLimit :: jsnum
  dailySpent :: jsnum
  currentFilter :: string
  userData :: doc
  uid :: "string option"
  users :: "string \<rightharpoonup> doc"
  toasts :: "toast list"

text \<open>The state when both scripts have loaded and nobody is signed in yet.\<close>

definition init_app :: "(string \<rightharpoonup> doc) \<Rightarrow> app" where
  "init_app remote =
     \<lparr>userProfile = \<lparr>profile_name = None, profile_phone = None, profile_avatar = None,
                      profile_tempAvatar = None\<rparr>,
      transactions = [], fixedExpenses = [], activeGoals = [], activeLoans = [],
      chatStore = Map.empty, groupMembers = Map.empty,
      monthlyLimit = Fin 30000, dailySpent = Fin 0, currentFilter = ''month'',
      userData = empty_doc, uid = None, users = remote, toasts = []\<rparr>"

text \<open>\<^verbatim>\<open>a || d\<close> where \<open>a\<close> is a text that may be missing and \<open>d\<close> a text.\<close>

definition or_str :: "string option \<Rightarrow> string \<Rightarrow> string" where
  "or_str a d = (case a of None \<Rightarrow> d | Some v \<Rightarrow> (if v = [] then d else v))"

text \<open>\<^verbatim>\<open>a || d\<close> where \<open>a\<close> is an array or an object that may be missing.\<close>

definition or_obj :: "'a option \<Rightarrow> 'a \<Rightarrow> 'a" where
  "or_obj a d = (case a of None \<Rightarrow> d | Some v \<Rightarrow> v)"

section \<open>The calendar\<close>

text \<open>
  The handlers read the calendar through \<^verbatim>\<open>Date\<close>: \<^verbatim>\<open>new Date(t)\<close> gives the
  year, the month (0 to 11) and the day of the month of a timestamp in the browser's
  time zone. That reading is a parameter \<open>cal\<close> of every function that uses it.
\<close>

record jsdate =
  cal_year :: int
  cal_month :: nat
  cal_day :: int

text \<open>
  Modelled from the runtime: \<^verbatim>\<open>new Date(year, month + 1, 0).getDate()\<close>, the number
  of days of a month of the Gregorian calendar.
\<close>

definition leap_year :: "int \<Rightarrow> bool" where
  "leap_year y = (y mod 4 = 0 \<and> (y mod 100 \<noteq> 0 \<or> y mod 400 = 0))"

definition daysInMonth :: "int \<Rightarrow> nat \<Rightarrow> int" where
  "daysInMonth y m =
     (if m = 1 then (if leap_year y then 29 else 28)
      else if m = 3 \<or> m = 5 \<or> m = 8 \<or> m = 10 then 30
      else 31)"

text \<open>
  Modelled from the runtime: the reading of a timestamp (milliseconds since 1970) by
  a browser whose time zone is UTC. It instantiates \<open>cal\<close> in the examples.
\<close>

definition utc_date :: "int \<Rightarrow> jsdate" where
  "utc_date t =
     (let z = t div 86400000 + 719468;
          era = z div 146097;
          doe = z - era * 146097;
          yoe = (doe - doe div 1460 + doe div 36524 - doe div 146096) div 365;
          doy = doe - (365 * yoe + yoe div 4 - yoe div 100);
          mp = (5 * doy + 2) div 153;
          d = doy - (153 * mp + 2) div 5 + 1;
          m = (if mp < 10 then mp + 3 else mp - 9);
          y = yoe + era * 400 + (if m \<le> 2 then 1 else 0)
      in \<lparr>cal_year = y, cal_month = nat (m - 1), cal_day = d\<rparr>)"

section \<open>\<^verbatim>\<open>firebase-init.js\<close>: loading and saving the user document\<close>

definition default_avatar :: string where
  "default_avatar = ''https://api.dicebear.com/7.x/avataaars/svg?seed=default''"

text \<open>The document \<^verbatim>\<open>loadUserDoc\<close> builds for a first-time user.\<close>

definition newUser :: "int \<Rightarrow> doc" where
  "newUser now =
     \<lparr>d_name = Some ''User'', d_phone = Some [], d_email = Some [],
      d_avatar = Some default_avatar,
      d_transactions = Some [], d_fixedExpenses = Some [], d_goals = Some [],
      d_loans = Some [], d_chatGroups = Some Map.empty, d_groupMembers = Some Map.empty,
      d_monthlyLimit = Some (Fin 0), d_createdAt = Some now,
      d_displayName = None, d_photoURL = None, d_activeGoals = None,
      d_activeLoans = None\<rparr>"

text \<open>
  \<^verbatim>\<open>loadUserDoc(uid)\<close>: the document read, and the collection after the call. When
  no document exists, the default one is written with \<^verbatim>\<open>setDoc(ref, newUser)\<close>
  (no merge) and returned.
\<close>

definition loadUserDoc :: "int \<Rightarrow> string \<Rightarrow> (string \<rightharpoonup> doc) \<Rightarrow> doc \<times> (string \<rightharpoonup> doc)" where
  "loadUserDoc now u remote =
     (case remote u of
        None \<Rightarrow> (newUser now, remote(u \<mapsto> newUser now))
      | Some d \<Rightarrow> (d, remote))"

text \<open>
  Modelled from the runtime: \<^verbatim>\<open>setDoc(ref, data, { merge: true })\<close>. A field of
  \<open>new\<close> replaces the stored one, a field that \<open>new\<close> lacks stays; the two map
  fields are merged key by key.
\<close>

definition merge_field :: "'a option \<Rightarrow> 'a option \<Rightarrow> 'a option" where
  "merge_field old new = (case new of None \<Rightarrow> old | Some v \<Rightarrow> Some v)"

definition merge_map :: "('k \<rightharpoonup> 'v) option \<Rightarrow> ('k \<rightharpoonup> 'v) option \<Rightarrow> ('k \<rightharpoonup> 'v) option" where
  "merge_map old new =
     (case new of
        None \<Rightarrow> old
      | Some n \<Rightarrow> (case old of None \<Rightarrow> Some n | Some m \<Rightarrow> Some (m ++ n)))"

definition merge_doc :: "doc \<Rightarrow> doc \<Rightarrow> doc" where
  "merge_doc old new =
     \<lparr>d_name = merge_field (d_name old) (d_name new),
      d_phone = merge_field (d_phone old) (d_phone new),
      d_email = merge_field (d_email old) (d_email new),
      d_avatar = merge_field (d_avatar old) (d_avatar new),
      d_transactions = merge_field (d_transactions old) (d_transactions new),
      d_fixedExpenses = merge_field (d_fixedExpenses old) (d_fixedExpenses new),
      d_goals = merge_field (d_goals old) (d_goals new),
      d_loans = merge_field (d_loans old) (d_loans new),
      d_chatGroups = merge_map (d_chatGroups old) (d_chatGroups new),
      d_groupMembers = merge_map (d_groupMembers old) (d_groupMembers new),
      d_monthlyLimit = merge_field (d_monthlyLimit old) (d_monthlyLimit new),
      d_createdAt = merge_field (d_createdAt old) (d_createdAt new),
      d_displayName = merge_field (d_displayName old) (d_displayName new),
      d_photoURL = merge_field (d_photoURL old) (d_photoURL new),
      d_activeGoals = merge_field (d_activeGoals old) (d_activeGoals new),
      d_activeLoans = merge_field (d_activeLoans old) (d_activeLoans new)\<rparr>"

text \<open>
  \<^verbatim>\<open>window.syncUserData(data)\<close>. Without a user id the call only schedules itself
  again after 300 ms and returns: nothing is written by this call (the timer is not
  part of the model). Otherwise the document saved is \<^verbatim>\<open>data || window.userData\<close>.
\<close>

definition syncUserData :: "doc option \<Rightarrow> app \<Rightarrow> app" where
  "syncUserData data st =
     (case uid st of
        None \<Rightarrow> st
      | Some u \<Rightarrow>
          (let dataToSave = (case data of Some d \<Rightarrow> d | None \<Rightarrow> userData st)
           in st\<lparr>users := (users st)(u \<mapsto> merge_doc (or_obj (users st u) empty_doc) dataToSave)\<rparr>))"

section \<open>\<^verbatim>\<open>dashboard.js\<close>\<close>

subsection \<open>Saving and hydration\<close>

text \<open>
  \<^verbatim>\<open>saveState()\<close>: the module variables are copied into \<^verbatim>\<open>window.userData\<close>,
  field by field, and \<^verbatim>\<open>window.syncUserData()\<close> is called without an argument.
  The fields of \<^verbatim>\<open>window.userData\<close> that are not assigned here keep their values.
\<close>

definition saveState :: "app \<Rightarrow> app" where
  "saveState st =
     syncUserData None
       (st\<lparr>userData := (userData st)
             \<lparr>d_name := Some (or_str (profile_name (userProfile st))
                               (or_str (d_name (userData st)) ''User'')),
              d_phone := Some (or_str (profile_phone (userProfile st))
                                (or_str (d_phone (userData st)) [])),
              d_avatar := Some (or_str (profile_avatar (userProfile st))
                                 (or_str (d_avatar (userData st)) [])),
              d_transactions := Some (transactions st),
              d_fixedExpenses := Some (fixedExpenses st),
              d_goals := Some (activeGoals st),
              d_loans := Some (activeLoans st),
              d_chatGroups := Some (chatStore st),
              d_groupMembers := Some (groupMembers st)\<rparr>\<rparr>)"

text \<open>\<^verbatim>\<open>if (!m["Roommates"]) m["Roommates"] = []\<close>: an array, even empty, is truthy.\<close>

definition ensure_roommates :: "(string \<rightharpoonup> 'a list) \<Rightarrow> (string \<rightharpoonup> 'a list)" where
  "ensure_roommates m = (case m ''Roommates'' of None \<Rightarrow> m(''Roommates'' \<mapsto> []) | Some _ \<Rightarrow> m)"

text \<open>
  The listener of \<^verbatim>\<open>firestore-ready\<close>. \<^verbatim>\<open>monthlyLimit\<close> and \<^verbatim>\<open>dailySpent\<close> are
  not assigned. \<^verbatim>\<open>chatStore\<close> and \<^verbatim>\<open>groupMembers\<close> are the very objects of
  \<^verbatim>\<open>window.userData\<close> when it has them, so the default group added to them is
  added to \<^verbatim>\<open>window.userData\<close> as well. \<^verbatim>\<open>initApp()\<close> only renders.
\<close>

definition firestore_ready :: "app \<Rightarrow> app" where
  "firestore_ready st =
     (let ud = userData st
      in st\<lparr>userProfile :=
               \<lparr>profile_name = Some (or_str (d_name ud) (or_str (d_displayName ud) ''User'')),
                profile_phone = Some (or_str (d_phone ud) []),
                profile_avatar = Some (or_str (d_avatar ud) (or_str (d_photoURL ud) default_avatar)),
                profile_tempAvatar = None\<rparr>,
             transactions := or_obj (d_transactions ud) [],
             fixedExpenses := or_obj (d_fixedExpenses ud) [],
             activeGoals := or_obj (d_goals ud) (or_obj (d_activeGoals ud) []),
             activeLoans := or_obj (d_loans ud) (or_obj (d_activeLoans ud) []),
             chatStore := ensure_roommates (or_obj (d_chatGroups ud) Map.empty),
             groupMembers := ensure_roommates (or_obj (d_groupMembers ud) Map.empty),
             userData := ud
               \<lparr>d_chatGroups := map_option ensure_roommates (d_chatGroups ud),
                d_groupMembers := map_option ensure_roommates (d_groupMembers ud)\<rparr>\<rparr>)"

text \<open>
  The listener of \<^verbatim>\<open>onAuthStateChanged\<close> for a signed-in user \<open>u\<close>: the user id
  is stored, the document is loaded (created for a first-time user) and becomes
  \<^verbatim>\<open>window.userData\<close>, then \<^verbatim>\<open>firestore-ready\<close> is dispatched.
\<close>

definition onAuthStateChanged :: "int \<Rightarrow> string \<Rightarrow> app \<Rightarrow> app" where
  "onAuthStateChanged now u st =
     (let r = loadUserDoc now u (users st)
      in firestore_ready (st\<lparr>uid := Some u, userData := fst r, users := snd r\<rparr>))"

subsection \<open>The date tracker and the daily safe spend\<close>

text \<open>
  \<^verbatim>\<open>updateDateTracker()\<close> returns \<^verbatim>\<open>daysLeft || 1\<close>, the days left in the month
  after today, and 1 on the last day.
\<close>

definition updateDateTracker :: "(int \<Rightarrow> jsdate) \<Rightarrow> int \<Rightarrow> int" where
  "updateDateTracker cal now =
     (let daysLeft = daysInMonth (cal_year (cal now)) (cal_month (cal now)) - cal_day (cal now)
      in if daysLeft = 0 then 1 else daysLeft)"

text \<open>The three loops of \<^verbatim>\<open>recalculateDashboard\<close>, named after their accumulators.\<close>

definition totalFixed :: "fixed_expense list \<Rightarrow> jsnum" where
  "totalFixed es = foldl (\<lambda>acc e. js_add acc (fe_amount e)) (Fin 0) es"

definition dailyDebt :: "loan list \<Rightarrow> jsnum" where
  "dailyDebt ls =
     foldl (\<lambda>acc l. if loan_type l = ''borrow'' then js_add acc (loan_daily l) else acc) (Fin 0) ls"

definition dailyGoal :: "goal list \<Rightarrow> jsnum" where
  "dailyGoal gs = foldl (\<lambda>acc g. js_add acc (goal_daily g)) (Fin 0) gs"

text \<open>
  \<^verbatim>\<open>finalDaily\<close>, the amount \<^verbatim>\<open>recalculateDashboard\<close> displays as the safe spend,
  from the daily base.
\<close>

definition finalDaily :: "jsnum \<Rightarrow> app \<Rightarrow> jsnum" where
  "finalDaily dailyBase st =
     js_max0 (js_sub (js_sub (js_sub dailyBase (dailyDebt (activeLoans st)))
                        (dailyGoal (activeGoals st)))
                (dailySpent st))"

text \<open>
  \<^verbatim>\<open>recalculateDashboard()\<close> of \<^verbatim>\<open>src/backend/dashboard.js\<close>: the disposable
  amount is divided by the days the date tracker returns.
\<close>

definition recalculateDashboard :: "(int \<Rightarrow> jsdate) \<Rightarrow> int \<Rightarrow> app \<Rightarrow> jsnum" where
  "recalculateDashboard cal now st =
     finalDaily
       (js_floor_div (js_sub (monthlyLimit st) (totalFixed (fixedExpenses st)))
          (Fin (updateDateTracker cal now)))
       st"

text \<open>
  \<^verbatim>\<open>recalculateDashboard()\<close> of the later copy of the dashboard
  (\<^verbatim>\<open>src/unnamed/part_001\<close>, lines 2840 to 2864, between the comments
  \<^verbatim>\<open>BUG FIX START\<close> and \<^verbatim>\<open>BUG FIX END\<close>): the disposable amount is divided by the
  number of days of the current month.
\<close>

definition recalculateDashboard_fix :: "(int \<Rightarrow> jsdate) \<Rightarrow> int \<Rightarrow> app \<Rightarrow> jsnum" where
  "recalculateDashboard_fix cal now st =
     finalDaily
       (js_floor_div (js_sub (monthlyLimit st) (totalFixed (fixedExpenses st)))
          (Fin (daysInMonth (cal_year (cal now)) (cal_month (cal now)))))
       st"

subsection \<open>The heatmap\<close>

text \<open>
  The timestamp \<^verbatim>\<open>renderHeatmap\<close> reads from a transaction,
  \<^verbatim>\<open>tx.timestamp || tx.date ? tx.timestamp || Date.now() : Date.now()\<close>
  (\<^verbatim>\<open>||\<close> binds tighter than \<^verbatim>\<open>?:\<close>).
\<close>

definition tx_time :: "int \<Rightarrow> transaction \<Rightarrow> int" where
  "tx_time now tx =
     (if tx_timestamp tx \<noteq> 0 \<or> tx_date tx \<noteq> []
      then (if tx_timestamp tx \<noteq> 0 then tx_timestamp tx else now)
      else now)"

text \<open>
  \<^verbatim>\<open>spendingMap\<close>: the transactions of the current month and year, added up by day
  of the month.
\<close>

definition spendingMap :: "(int \<Rightarrow> jsdate) \<Rightarrow> int \<Rightarrow> transaction list \<Rightarrow> (int \<rightharpoonup> jsnum)" where
  "spendingMap cal now txs =
     foldl (\<lambda>m tx.
              if cal_month (cal (tx_time now tx)) = cal_month (cal now)
                 \<and> cal_year (cal (tx_time now tx)) = cal_year (cal now)
              then m(cal_day (cal (tx_time now tx)) \<mapsto>
                       js_add (case m (cal_day (cal (tx_time now tx))) of
                                 None \<Rightarrow> Fin 0 | Some v \<Rightarrow> js_or v (Fin 0))
                              (js_or (tx_amount tx) (Fin 0)))
              else m)
       Map.empty txs"

text \<open>\<^verbatim>\<open>const amount = spendingMap[i] || 0\<close>.\<close>

definition dayAmount :: "(int \<rightharpoonup> jsnum) \<Rightarrow> int \<Rightarrow> jsnum" where
  "dayAmount m i = (case m i of None \<Rightarrow> Fin 0 | Some v \<Rightarrow> js_or v (Fin 0))"

text \<open>The class of a cell: three tests in a row, each overriding the one before.\<close>

definition colorClass :: "jsnum \<Rightarrow> string" where
  "colorClass amount =
     (let c0 = ''bg-white/5 border border-white/5'';
          c1 = (if js_gt amount 0 then ''bg-brand-accent/40 border border-brand-accent/50'' else c0);
          c2 = (if js_ge amount 500 then ''bg-brand-warning/60 border border-brand-warning/50'' else c1)
      in if js_ge amount 2000 then ''bg-brand-danger border border-brand-danger/50'' else c2)"

text \<open>
  The level of a class, as the comments of the first copy of \<^verbatim>\<open>renderHeatmap\<close>
  number them (\<^verbatim>\<open>Level 0\<close> to \<^verbatim>\<open>Level 3\<close>).
\<close>

definition level :: "string \<Rightarrow> nat" where
  "level c =
     (if c = ''bg-brand-danger border border-brand-danger/50'' then 3
      else if c = ''bg-brand-warning/60 border border-brand-warning/50'' then 2
      else if c = ''bg-brand-accent/40 border border-brand-accent/50'' then 1
      else 0)"

text \<open>
  The cells \<^verbatim>\<open>renderHeatmap\<close> draws for the days of the month: the day, its amount
  and its class.
\<close>

definition renderHeatmap :: "(int \<Rightarrow> jsdate) \<Rightarrow> int \<Rightarrow> transaction list \<Rightarrow> (int \<times> jsnum \<times> string) list" where
  "renderHeatmap cal now txs =
     map (\<lambda>i. (i, dayAmount (spendingMap cal now txs) i,
                colorClass (dayAmount (spendingMap cal now txs) i)))
       [1 .. daysInMonth (cal_year (cal now)) (cal_month (cal now))]"

subsection \<open>The sentiment analysis\<close>

definition oneDayMs :: int where
  "oneDayMs = 24 * 60 * 60 * 1000"

definition getFilteredTransactions :: "int \<Rightarrow> app \<Rightarrow> transaction list" where
  "getFilteredTransactions now st =
     filter (\<lambda>t. let diff = now - (if tx_timestamp t \<noteq> 0 then tx_timestamp t else now)
                 in if currentFilter st = ''day'' then diff < oneDayMs
                    else if currentFilter st = ''week'' then diff < oneDayMs * 7
                    else if currentFilter st = ''month'' then diff < oneDayMs * 30
                    else True)
       (transactions st)"

text \<open>
  The loop of \<^verbatim>\<open>updateSentimentAnalysis\<close> over the filtered transactions; the
  accumulators are \<^verbatim>\<open>worthy\<close>, \<^verbatim>\<open>regret\<close> and \<^verbatim>\<open>ignore\<close>.
\<close>

definition sentiment_step :: "jsnum \<times> jsnum \<times> jsnum \<Rightarrow> transaction \<Rightarrow> jsnum \<times> jsnum \<times> jsnum" where
  "sentiment_step acc tx =
     (case acc of
        (worthy, regret, ignore) \<Rightarrow>
          if tx_sentiment tx = ''worthy''
          then (js_add worthy (js_or (tx_amount tx) (Fin 0)), regret, ignore)
          else if tx_sentiment tx = ''regret''
          then (worthy, js_add regret (js_or (tx_amount tx) (Fin 0)), ignore)
          else (worthy, regret, js_add ignore (js_or (tx_amount tx) (Fin 0))))"

record sentiment_totals =
  st_worthy :: jsnum
  st_regret :: jsnum
  st_ignore :: jsnum
  st_total :: jsnum

definition updateSentimentAnalysis :: "int \<Rightarrow> app \<Rightarrow> sentiment_totals" where
  "updateSentimentAnalysis now st =
     (case foldl sentiment_step (Fin 0, Fin 0, Fin 0)
             (getFilteredTransactions now st) of
        (worthy, regret, ignore) \<Rightarrow>
          \<lparr>st_worthy = worthy, st_regret = regret, st_ignore = ignore,
           st_total = js_add (js_add worthy regret) ignore\<rparr>)"

subsection \<open>The handlers that change the ledger\<close>

text \<open>
  A handler takes the texts of the input fields it reads (their \<^verbatim>\<open>value\<close>) and the
  clock, and returns the state after it. The input elements the handlers look up
  exist in the page; an element whose absence the handler provides for with a value
  of its own is an optional argument.
\<close>

definition showToast :: "toast \<Rightarrow> app \<Rightarrow> app" where
  "showToast t st = st\<lparr>toasts := toasts st @ [t]\<rparr>"

text \<open>\<^verbatim>\<open>window.saveTransaction\<close>.\<close>

definition saveTransaction ::
  "int \<Rightarrow> string \<Rightarrow> string \<Rightarrow> string option \<Rightarrow> string option \<Rightarrow> app \<Rightarrow> app" where
  "saveTransaction now nameValue amtValue catValue sentValue st =
     (let merchant = nameValue;
          amount = parseInt amtValue;
          category = (case catValue of Some c \<Rightarrow> c | None \<Rightarrow> ''Food'');
          sentiment = (case sentValue of Some s \<Rightarrow> s | None \<Rightarrow> ''ignore'')
      in if merchant = [] \<or> \<not> truthy amount
         then showToast InvalidExpenseDetails st
         else saveState (showToast (SpentAt amount merchant)
                (st\<lparr>dailySpent := js_add (dailySpent st) amount,
                    transactions :=
                      \<lparr>tx_date = ''Today, Just now'', tx_timestamp = now,
                       tx_merchant = merchant, tx_category = category, tx_amount = amount,
                       tx_icon = (if category = ''Food'' then ''ph-hamburger''
                                  else if category = ''Transport'' then ''ph-taxi''
                                  else ''ph-shopping-bag''),
                       tx_color = ''text-brand-light'', tx_bg = ''bg-brand-DEFAULT/20'',
                       tx_sentiment = sentiment\<rparr> # transactions st\<rparr>)))"

text \<open>\<^verbatim>\<open>window.addFixedExpense\<close>: nothing happens unless \<^verbatim>\<open>name && amount > 0\<close>.\<close>

definition addFixedExpense :: "string \<Rightarrow> string \<Rightarrow> app \<Rightarrow> app" where
  "addFixedExpense nameValue amtValue st =
     (if nameValue \<noteq> [] \<and> js_gt (parseInt amtValue) 0
      then saveState (st\<lparr>fixedExpenses :=
                            fixedExpenses st @ [\<lparr>fe_name = nameValue, fe_amount = parseInt amtValue\<rparr>]\<rparr>)
      else st)"

text \<open>
  Modelled from the runtime: \<^verbatim>\<open>array.splice(index, 1)\<close> for an integer index. A
  negative index counts from the end, and both ends are clamped.
\<close>

definition splice1 :: "int \<Rightarrow> 'a list \<Rightarrow> 'a list" where
  "splice1 index xs =
     (let len = int (length xs);
          start = (if index < 0 then max (len + index) 0 else min index len);
          deleteCount = min 1 (len - start)
      in take (nat start) xs @ drop (nat (start + deleteCount)) xs)"

text \<open>\<^verbatim>\<open>window.removeFixedExpense\<close>.\<close>

definition removeFixedExpense :: "int \<Rightarrow> app \<Rightarrow> app" where
  "removeFixedExpense index st = saveState (st\<lparr>fixedExpenses := splice1 index (fixedExpenses st)\<rparr>)"

text \<open>
  \<^verbatim>\<open>window.saveBudgetSettings\<close>:
  \<^verbatim>\<open>monthlyLimit = limitEl ? parseInt(limitEl.value) || monthlyLimit : monthlyLimit\<close>.
\<close>

definition saveBudgetSettings :: "string option \<Rightarrow> app \<Rightarrow> app" where
  "saveBudgetSettings limitValue st =
     saveState (showToast BudgetUpdated
       (st\<lparr>monthlyLimit :=
              (case limitValue of
                 Some v \<Rightarrow> js_or (parseInt v) (monthlyLimit st)
               | None \<Rightarrow> monthlyLimit st)\<rparr>))"

text \<open>
  \<^verbatim>\<open>window.saveGoal\<close>. \<open>parseDate\<close> is the runtime's reading of the deadline
  (\<^verbatim>\<open>new Date(dateInput.value)\<close>, in milliseconds, NaN for a text that is no date).
\<close>

definition saveGoal ::
  "(string \<Rightarrow> jsnum) \<Rightarrow> int \<Rightarrow> string \<Rightarrow> string \<Rightarrow> string \<Rightarrow> app \<Rightarrow> app" where
  "saveGoal parseDate now nameValue amountValue dateValue st =
     (if nameValue = [] \<or> amountValue = [] \<or> dateValue = []
      then showToast PleaseFillAllDetails st
      else
        (let diffTime = js_abs (js_sub (parseDate dateValue) (Fin now));
             diffDays = js_or (js_ceil_div diffTime (Fin (1000 * 60 * 60 * 24))) (Fin 1);
             daily = js_ceil_div (parseInt amountValue) diffDays
         in saveState (showToast GoalSet
              (st\<lparr>activeGoals := activeGoals st @
                     [\<lparr>goal_id = now, goal_name = nameValue, goal_amount = parseInt amountValue,
                       goal_deadline = dateValue, goal_daily = daily,
                       goal_daysLeft = diffDays\<rparr>]\<rparr>))))"

text \<open>\<^verbatim>\<open>window.removeGoal\<close>.\<close>

definition removeGoal :: "int \<Rightarrow> app \<Rightarrow> app" where
  "removeGoal gid st =
     saveState (showToast GoalRemoved
       (st\<lparr>activeGoals := filter (\<lambda>g. goal_id g \<noteq> gid) (activeGoals st)\<rparr>))"

text \<open>\<^verbatim>\<open>window.saveLoan\<close>: the fields are read and the loan is pushed, with no test.\<close>

definition saveLoan :: "int \<Rightarrow> string \<Rightarrow> string \<Rightarrow> string \<Rightarrow> string \<Rightarrow> app \<Rightarrow> app" where
  "saveLoan now typeValue personValue amountValue durationValue st =
     saveState (showToast RecordAdded
       (st\<lparr>activeLoans := activeLoans st @
              [\<lparr>loan_id = now, loan_type = typeValue, loan_person = personValue,
                loan_amount = parseInt amountValue, loan_duration = parseInt durationValue,
                loan_daily = js_floor_div (parseInt amountValue) (parseInt durationValue)\<rparr>]\<rparr>))"

text \<open>\<^verbatim>\<open>window.saveProfile\<close>.\<close>

definition saveProfile :: "string \<Rightarrow> string \<Rightarrow> app \<Rightarrow> app" where
  "saveProfile nameValue phoneValue st =
     (let p = userProfile st;
          p1 = (if nameValue \<noteq> [] then p\<lparr>profile_name := Some nameValue\<rparr> else p);
          p2 = (if phoneValue \<noteq> [] then p1\<lparr>profile_phone := Some phoneValue\<rparr> else p1);
          p3 = (if or_str (profile_tempAvatar p2) [] \<noteq> []
                then p2\<lparr>profile_avatar := profile_tempAvatar p2, profile_tempAvatar := None\<rparr>
                else p2)
      in saveState (showToast ProfileUpdated (st\<lparr>userProfile := p3\<rparr>)))"

text \<open>The handlers above, as the actions of a session.\<close>

datatype action =
    SaveTransaction int string string "string option" "string option"
  | AddFixedExpense string string
  | RemoveFixedExpense int
  | SaveBudgetSettings "string option"
  | SaveGoal int string string string
  | RemoveGoal int
  | SaveLoan int string string string string
  | SaveProfile string string

fun step :: "(string \<Rightarrow> jsnum) \<Rightarrow> app \<Rightarrow> action \<Rightarrow> app" where
  "step parseDate st (SaveTransaction now n a c s) = saveTransaction now n a c s st"
| "step parseDate st (AddFixedExpense n a) = addFixedExpense n a st"
| "step parseDate st (RemoveFixedExpense i) = removeFixedExpense i st"
| "step parseDate st (SaveBudgetSettings v) = saveBudgetSettings v st"
| "step parseDate st (SaveGoal now n a d) = saveGoal parseDate now n a d st"
| "step parseDate st (RemoveGoal g) = removeGoal g st"
| "step parseDate st (SaveLoan now t p a d) = saveLoan now t p a d st"
| "step parseDate st (SaveProfile n p) = saveProfile n p st"

definition run :: "(string \<Rightarrow> jsnum) \<Rightarrow> app \<Rightarrow> action list \<Rightarrow> app" where
  "run parseDate st acts = foldl (step parseDate) st acts"

subsection \<open>The remote monthly limit\<close>

text \<open>The \<^verbatim>\<open>monthlyLimit\<close> field of the user's remote document, if it has one.\<close>

definition remote_limit :: "app \<Rightarrow> string \<Rightarrow> jsnum option" where
  "remote_limit st u = (case users st u of None \<Rightarrow> None | Some d \<Rightarrow> d_monthlyLimit d)"

text \<open>
  The invariant of a session of user \<open>u\<close>: the user id is known, and
  \<^verbatim>\<open>window.userData\<close> carries the \<^verbatim>\<open>monthlyLimit\<close> field of the remote document.
\<close>

definition limit_mirrored :: "app \<Rightarrow> string \<Rightarrow> bool" where
  "limit_mirrored st u = (uid st = Some u \<and> remote_limit st u = d_monthlyLimit (userData st))"

section \<open>The specification's formulas\<close>

text \<open>
  The definitions of this section follow the words of the specification, not the
  code; the theorems compare the code with them.
\<close>

definition js_sum :: "jsnum list \<Rightarrow> jsnum" where
  "js_sum xs = foldl js_add (Fin 0) xs"

text \<open>
  \<open>spentToday\<close>: the sum of the transaction amounts whose timestamp falls on the
  current calendar date.
\<close>

definition spentToday :: "(int \<Rightarrow> jsdate) \<Rightarrow> int \<Rightarrow> transaction list \<Rightarrow> jsnum" where
  "spentToday cal now txs =
     js_sum (map tx_amount (filter (\<lambda>t. cal (tx_timestamp t) = cal now) txs))"

text \<open>
  The daily safe spend of the specification:
  \<open>max(0, floor((monthlyLimit - sum of fixedExpenses) / daysInCurrentMonth)
   - sum of the borrow loans' dailyAmount - sum of the goals' dailyContribution - spentToday)\<close>.
\<close>

definition spec_dailySafeSpend :: "(int \<Rightarrow> jsdate) \<Rightarrow> int \<Rightarrow> app \<Rightarrow> jsnum" where
  "spec_dailySafeSpend cal now st =
     js_max0
       (js_sub
          (js_sub
             (js_sub
                (js_floor_div
                   (js_sub (monthlyLimit st) (js_sum (map fe_amount (fixedExpenses st))))
                   (Fin (daysInMonth (cal_year (cal now)) (cal_month (cal now)))))
                (js_sum (map loan_daily (filter (\<lambda>l. loan_type l = ''borrow'') (activeLoans st)))))
             (js_sum (map goal_daily (activeGoals st))))
          (spentToday cal now (transactions st)))"

text \<open>
  \<open>daysUntil\<close>: the whole days between now and the deadline, rounded up. The
  specification does not say how a deadline in the past counts; the code takes the
  absolute distance, and so does this definition.
\<close>

definition daysUntil :: "int \<Rightarrow> int \<Rightarrow> int" where
  "daysUntil deadline now = - ((- \<bar>deadline - now\<bar>) div 86400000)"

text \<open>\<open>ceil(a / d)\<close> for integers.\<close>

definition ceil_div :: "int \<Rightarrow> int \<Rightarrow> int" where
  "ceil_div a d = - ((- a) div d)"

text \<open>The amount of a transaction as an integer, when it is one.\<close>

definition amount_int :: "transaction \<Rightarrow> int" where
  "amount_int t = (case tx_amount t of Fin a \<Rightarrow> a | _ \<Rightarrow> 0)"

text \<open>The data model's transactions: the amount is an integer and not negative.\<close>

definition amount_ok :: "transaction \<Rightarrow> bool" where
  "amount_ok t = (case tx_amount t of Fin a \<Rightarrow> 0 \<le> a | _ \<Rightarrow> False)"

text \<open>A transaction with an integer amount, of any sign.\<close>

definition amount_finite :: "transaction \<Rightarrow> bool" where
  "amount_finite t = (case tx_amount t of Fin a \<Rightarrow> True | _ \<Rightarrow> False)"

text \<open>
  \<open>spend(d)\<close>: the sum of the amounts of the transactions whose timestamp falls on
  day \<open>d\<close> of the current month.
\<close>

definition on_day :: "(int \<Rightarrow> jsdate) \<Rightarrow> int \<Rightarrow> int \<Rightarrow> transaction \<Rightarrow> bool" where
  "on_day cal now i t =
     (cal_month (cal (tx_time now t)) = cal_month (cal now)
      \<and> cal_year (cal (tx_time now t)) = cal_year (cal now)
      \<and> cal_day (cal (tx_time now t)) = i)"

definition daySpend :: "(int \<Rightarrow> jsdate) \<Rightarrow> int \<Rightarrow> transaction list \<Rightarrow> int \<Rightarrow> int" where
  "daySpend cal now txs i = sum_list (map amount_int (filter (on_day cal now i) txs))"

text \<open>The four tiers of the heatmap: none, \<open>> 0\<close>, \<open>\<ge> 500\<close>, \<open>\<ge> 2000\<close>.\<close>

definition tier :: "int \<Rightarrow> nat" where
  "tier s = (if s \<ge> 2000 then 3 else if s \<ge> 500 then 2 else if s > 0 then 1 else 0)"

section \<open>Example sessions\<close>

text \<open>
  The examples run on 2 November 2026 at 10:00 UTC, in a browser whose time zone is
  UTC; November has 30 days. \<open>example_parseDate\<close> reads the one deadline the
  examples use, midnight of 2 December 2026.
\<close>

definition example_now :: int where
  "example_now = 1793613600000"

definition example_parseDate :: "string \<Rightarrow> jsnum" where
  "example_parseDate s = (if s = ''2026-12-02'' then Fin 1796169600000 else NaN)"

text \<open>
  A first-time user signs in, sets the monthly limit to 30000 and adds the fixed
  expenses Rent (15000) and Internet (1000).
\<close>

definition example_session :: "action list" where
  "example_session =
     [SaveBudgetSettings (Some ''30000''),
      AddFixedExpense ''Rent'' ''15000'',
      AddFixedExpense ''Internet'' ''1000'']"

definition example_state :: app where
  "example_state =
     run example_parseDate (onAuthStateChanged example_now ''u1'' (init_app Map.empty))
       example_session"

text \<open>
  The same user then logs a coffee of 100 and reloads the page: the scripts start
  again from their initial state, with the remote collection as the session left it.
\<close>

definition example_coffee :: app where
  "example_coffee =
     saveTransaction example_now ''Coffee'' ''100'' (Some ''Food'') (Some ''worthy'') example_state"

definition example_reloaded :: app where
  "example_reloaded = onAuthStateChanged example_now ''u1'' (init_app (users example_coffee))"

definition example_lend :: loan where
  "example_lend =
     \<lparr>loan_id = 1, loan_type = ''lend'', loan_person = ''Asha'', loan_amount = Fin 900,
      loan_duration = Fin 9, loan_daily = Fin 100\<rparr>"

text \<open>
  Four purchases logged by the same user: shoes forty days ago, groceries yesterday,
  a coffee an hour ago and a taxi now, the last one with no sentiment chosen.
\<close>

definition example_spending :: app where
  "example_spending =
     run example_parseDate example_state
       [SaveTransaction (example_now - 40 * 86400000) ''Shoes'' ''2500''
          (Some ''Shopping'') (Some ''regret''),
        SaveTransaction (example_now - 86400000) ''Groceries'' ''600''
          (Some ''Food'') (Some ''worthy''),
        SaveTransaction (example_now - 3600000) ''Coffee'' ''100''
          (Some ''Food'') (Some ''worthy''),
        SaveTransaction example_now ''Taxi'' ''250'' (Some ''Transport'') None]"

text \<open>
  The user of the first example logs a refund as an expense of \<^verbatim>\<open>-5\<close>:
  \<^verbatim>\<open>saveTransaction\<close> rejects only an amount that is zero or not a number.
\<close>

definition example_refund :: app where
  "example_refund =
     saveTransaction example_now ''Refund'' ''-5'' (Some ''Food'') (Some ''worthy'') example_state"

section \<open>Properties of the model\<close>

subsection \<open>Arithmetic of the numbers\<close>

lemma js_add_commute: "js_add a b = js_add b a"
  by (cases a; cases b) auto

lemma js_add_assoc: "js_add (js_add a b) c = js_add a (js_add b c)"
  by (cases a; cases b; cases c) auto

lemma js_add_left_commute: "js_add a (js_add b c) = js_add b (js_add a c)"
  by (cases a; cases b; cases c) auto

subsection \<open>What saving and toasts leave alone\<close>

lemma syncUserData_fields [simp]:
  "userProfile (syncUserData d st) = userProfile st"
  "transactions (syncUserData d st) = transactions st"
  "fixedExpenses (syncUserData d st) = fixedExpenses st"
  "activeGoals (syncUserData d st) = activeGoals st"
  "activeLoans (syncUserData d st) = activeLoans st"
  "chatStore (syncUserData d st) = chatStore st"
  "groupMembers (syncUserData d st) = groupMembers st"
  "monthlyLimit (syncUserData d st) = monthlyLimit st"
  "dailySpent (syncUserData d st) = dailySpent st"
  "currentFilter (syncUserData d st) = currentFilter st"
  "userData (syncUserData d st) = userData st"
  "uid (syncUserData d st) = uid st"
  "toasts (syncUserData d st) = toasts st"
  by (simp_all add: syncUserData_def Let_def split: option.splits)

lemma saveState_fields [simp]:
  "userProfile (saveState st) = userProfile st"
  "transactions (saveState st) = transactions st"
  "fixedExpenses (saveState st) = fixedExpenses st"
  "activeGoals (saveState st) = activeGoals st"
  "activeLoans (saveState st) = activeLoans st"
  "chatStore (saveState st) = chatStore st"
  "groupMembers (saveState st) = groupMembers st"
  "monthlyLimit (saveState st) = monthlyLimit st"
  "dailySpent (saveState st) = dailySpent st"
  "currentFilter (saveState st) = currentFilter st"
  "uid (saveState st) = uid st"
  "toasts (saveState st) = toasts st"
  by (simp_all add: saveState_def)

lemma showToast_fields [simp]:
  "userProfile (showToast t st) = userProfile st"
  "transactions (showToast t st) = transactions st"
  "fixedExpenses (showToast t st) = fixedExpenses st"
  "activeGoals (showToast t st) = activeGoals st"
  "activeLoans (showToast t st) = activeLoans st"
  "chatStore (showToast t st) = chatStore st"
  "groupMembers (showToast t st) = groupMembers st"
  "monthlyLimit (showToast t st) = monthlyLimit st"
  "dailySpent (showToast t st) = dailySpent st"
  "currentFilter (showToast t st) = currentFilter st"
  "userData (showToast t st) = userData st"
  "uid (showToast t st) = uid st"
  "users (showToast t st) = users st"
  "toasts (showToast t st) = toasts st @ [t]"
  by (simp_all add: showToast_def)

subsection \<open>Loans and the daily debt\<close>

lemma dailyDebt_skip:
  "loan_type l \<noteq> ''borrow'' \<Longrightarrow> dailyDebt (xs @ l # ys) = dailyDebt (xs @ ys)"
  by (simp add: dailyDebt_def)

lemma dailyDebt_snoc:
  "dailyDebt (xs @ [l]) =
     (if loan_type l = ''borrow'' then js_add (dailyDebt xs) (loan_daily l) else dailyDebt xs)"
  by (simp add: dailyDebt_def)

lemma activeLoans_saveLoan:
  "activeLoans (saveLoan now ty p a d st) =
     activeLoans st @
       [\<lparr>loan_id = now, loan_type = ty, loan_person = p, loan_amount = parseInt a,
         loan_duration = parseInt d, loan_daily = js_floor_div (parseInt a) (parseInt d)\<rparr>]"
  by (simp add: saveLoan_def)

lemma saveLoan_others [simp]:
  "monthlyLimit (saveLoan now ty p a d st) = monthlyLimit st"
  "fixedExpenses (saveLoan now ty p a d st) = fixedExpenses st"
  "activeGoals (saveLoan now ty p a d st) = activeGoals st"
  "dailySpent (saveLoan now ty p a d st) = dailySpent st"
  "transactions (saveLoan now ty p a d st) = transactions st"
  by (simp_all add: saveLoan_def)

lemma js_floor_div_fin:
  "d \<ge> 1 \<Longrightarrow> js_floor_div (Fin a) (Fin d) = Fin (a div d)"
  by (auto simp: js_floor_div_def js_round_div_def is_zero_def is_inf_def signed_zero_def
      zdiv_eq_0_iff)

lemma max0_less_debt:
  assumes "0 \<le> k"
    and "js_max0 (js_sub (js_sub (js_sub b (js_add dd (Fin k))) g) s) = Fin v"
    and "0 < v"
  shows "js_max0 (js_sub (js_sub (js_sub b dd) g) s) = Fin (v + k)"
  using assms
  by (cases b; cases dd; cases g; cases s) (auto simp: js_sub_def split: if_splits)

lemma max0_more_debt:
  assumes "0 \<le> k"
    and "js_max0 (js_sub (js_sub (js_sub b dd) g) s) = Fin w"
    and "k < w"
  shows "js_max0 (js_sub (js_sub (js_sub b (js_add dd (Fin k))) g) s) = Fin (w - k)"
  using assms
  by (cases b; cases dd; cases g; cases s) (auto simp: js_sub_def split: if_splits)

section \<open>The claims\<close>

subsection \<open>C1: the daily safe spend\<close>

lemma foldl_js_add_filter:
  "foldl (\<lambda>acc x. if P x then js_add acc (f x) else acc) a xs
     = foldl js_add a (map f (filter P xs))"
  by (induction xs arbitrary: a) simp_all

lemma totalFixed_js_sum: "totalFixed es = js_sum (map fe_amount es)"
  by (simp add: totalFixed_def js_sum_def foldl_map)

lemma dailyDebt_js_sum:
  "dailyDebt ls = js_sum (map loan_daily (filter (\<lambda>l. loan_type l = ''borrow'') ls))"
  by (simp add: dailyDebt_def js_sum_def foldl_js_add_filter)

lemma dailyGoal_js_sum: "dailyGoal gs = js_sum (map goal_daily gs)"
  by (simp add: dailyGoal_def js_sum_def foldl_map)

text \<open>
  The later copy of \<^verbatim>\<open>recalculateDashboard\<close> computes the formula of the
  specification with \<^verbatim>\<open>dailySpent\<close> in the place of \<open>spentToday\<close>: the two agree in
  every state in which the variable holds the sum of today's transactions.
\<close>

lemma recalculateDashboard_fix_is_spec:
  "dailySpent st = spentToday cal now (transactions st) \<Longrightarrow>
   recalculateDashboard_fix cal now st = spec_dailySafeSpend cal now st"
  by (simp add: recalculateDashboard_fix_def spec_dailySafeSpend_def finalDaily_def
      totalFixed_js_sum dailyDebt_js_sum dailyGoal_js_sum)

lemma foldl_js_add_init: "foldl js_add (js_add z a) xs = js_add (foldl js_add z xs) a"
proof (induction xs arbitrary: z)
  case Nil
  show ?case by simp
next
  case (Cons x xs)
  have "js_add (js_add z a) x = js_add (js_add z x) a"
    by (metis js_add_assoc js_add_commute)
  then show ?case
    using Cons.IH [of "js_add z x"] by simp
qed

text \<open>
  Within one page session \<^verbatim>\<open>saveTransaction\<close> keeps that agreement: the new
  transaction carries the current time, and its amount is added to the variable.
\<close>

lemma saveTransaction_tracks_today:
  assumes "dailySpent st = spentToday cal now (transactions st)"
    and "nameValue \<noteq> []" and "truthy (parseInt amtValue)"
  shows "dailySpent (saveTransaction now nameValue amtValue catValue sentValue st)
           = spentToday cal now
               (transactions (saveTransaction now nameValue amtValue catValue sentValue st))"
  using assms
  by (simp add: saveTransaction_def Let_def spentToday_def js_sum_def foldl_js_add_init)

text \<open>
  The scenario of the specification, in the later copy: a limit of 30000, fixed
  expenses of 16000, a month of 30 days, no loan, goal or spending.
\<close>

lemma scenario_466:
  "spec_dailySafeSpend utc_date example_now example_state = Fin 466
   \<and> recalculateDashboard_fix utc_date example_now example_state = Fin 466"
  by code_simp

text \<open>
  C1. The claim does not hold of the code. \<^verbatim>\<open>dailySpent\<close> is a variable that starts
  at 0 when the page loads and grows with every transaction saved afterwards; the
  hydration does not set it from the transactions of the day. After the coffee of
  100 and a reload of the page, the ledger holds a transaction of today, so the formula
  of the claim gives \<open>floor(14000 / 30) - 100 = 366\<close>; the later copy of
  \<^verbatim>\<open>recalculateDashboard\<close> displays 466, and the copy of
  \<^verbatim>\<open>src/backend/dashboard.js\<close>, which divides by the 28 days left in the month,
  displays 500. Before the reload the later copy displayed 366. (The reloaded state is
  the same under the hydration of the later copy, which also reads the monthly limit
  from the document, where that copy had saved the 30000.)
\<close>

theorem safe_spend_after_reload:
  "map tx_amount (transactions example_reloaded) = [Fin 100]
   \<and> map tx_timestamp (transactions example_reloaded) = [example_now]
   \<and> dailySpent example_reloaded = Fin 0
   \<and> spentToday utc_date example_now (transactions example_reloaded) = Fin 100
   \<and> daysInMonth (cal_year (utc_date example_now)) (cal_month (utc_date example_now)) = 30
   \<and> updateDateTracker utc_date example_now = 28
   \<and> spec_dailySafeSpend utc_date example_now example_reloaded = Fin 366
   \<and> recalculateDashboard_fix utc_date example_now example_reloaded = Fin 466
   \<and> recalculateDashboard utc_date example_now example_reloaded = Fin 500
   \<and> recalculateDashboard_fix utc_date example_now example_coffee = Fin 366"
  by code_simp

subsection \<open>C2: the first sign-in of a user\<close>

lemma loadUserDoc_first_time:
  "remote u = None \<Longrightarrow> loadUserDoc now u remote = (newUser now, remote(u \<mapsto> newUser now))"
  by (simp add: loadUserDoc_def)

lemma ensure_roommates_empty: "ensure_roommates Map.empty = [''Roommates'' \<mapsto> []]"
  by (simp add: ensure_roommates_def)

text \<open>
  C2, as amended. When no document exists for the user, \<^verbatim>\<open>loadUserDoc\<close> builds the
  default document, whose six collections are empty and whose monthly limit is 0,
  writes exactly that document to the remote collection and returns it. The listener
  of \<^verbatim>\<open>firestore-ready\<close> then leaves the ledger with no transaction, fixed expense,
  goal or loan, and with the default group \<^verbatim>\<open>Roommates\<close>, empty, as the only entry
  of the chat groups and of the group members (the same entry is added to the two maps
  of \<^verbatim>\<open>window.userData\<close>, which are the same objects). The monthly limit in memory
  is not part of this statement.
\<close>

theorem first_time_hydration:
  assumes "users start u = None"
  shows "loadUserDoc now u (users start) = (newUser now, (users start)(u \<mapsto> newUser now))
       \<and> users (onAuthStateChanged now u start) = (users start)(u \<mapsto> newUser now)
       \<and> d_transactions (newUser now) = Some [] \<and> d_fixedExpenses (newUser now) = Some []
       \<and> d_goals (newUser now) = Some [] \<and> d_loans (newUser now) = Some []
       \<and> d_chatGroups (newUser now) = Some Map.empty
       \<and> d_groupMembers (newUser now) = Some Map.empty
       \<and> d_monthlyLimit (newUser now) = Some (Fin 0)
       \<and> uid (onAuthStateChanged now u start) = Some u
       \<and> transactions (onAuthStateChanged now u start) = []
       \<and> fixedExpenses (onAuthStateChanged now u start) = []
       \<and> activeGoals (onAuthStateChanged now u start) = []
       \<and> activeLoans (onAuthStateChanged now u start) = []
       \<and> chatStore (onAuthStateChanged now u start) = [''Roommates'' \<mapsto> []]
       \<and> groupMembers (onAuthStateChanged now u start) = [''Roommates'' \<mapsto> []]
       \<and> userData (onAuthStateChanged now u start)
           = (newUser now)\<lparr>d_chatGroups := Some [''Roommates'' \<mapsto> []],
                            d_groupMembers := Some [''Roommates'' \<mapsto> []]\<rparr>"
  using assms
  by (simp add: onAuthStateChanged_def firestore_ready_def loadUserDoc_first_time Let_def
      newUser_def or_obj_def ensure_roommates_empty)

theorem first_time_hydration_witness:
  "users (init_app Map.empty) ''u1'' = None
   \<and> users (onAuthStateChanged example_now ''u1'' (init_app Map.empty)) ''u1''
       = Some (newUser example_now)
   \<and> transactions (onAuthStateChanged example_now ''u1'' (init_app Map.empty)) = []
   \<and> chatStore (onAuthStateChanged example_now ''u1'' (init_app Map.empty)) ''Roommates'' = Some []"
proof -
  have h: "users (init_app Map.empty) ''u1'' = None"
    by (simp add: init_app_def)
  from first_time_hydration [OF h, where now = example_now] h
  show ?thesis by simp
qed

text \<open>
  The claim as stated fails for the first sign-in on an empty remote collection: after
  the hydration the chat groups and the group members hold the group \<^verbatim>\<open>Roommates\<close>,
  and the monthly limit in memory is 30000, the initial value of the variable, since
  the listener of \<^verbatim>\<open>src/backend/dashboard.js\<close> never assigns it.
\<close>

theorem first_time_hydration_counterexample:
  "chatStore (onAuthStateChanged example_now ''u1'' (init_app Map.empty)) ''Roommates'' = Some []
   \<and> groupMembers (onAuthStateChanged example_now ''u1'' (init_app Map.empty)) ''Roommates'' = Some []
   \<and> monthlyLimit (onAuthStateChanged example_now ''u1'' (init_app Map.empty)) = Fin 30000
   \<and> \<not> (chatStore (onAuthStateChanged example_now ''u1'' (init_app Map.empty)) = Map.empty
        \<and> groupMembers (onAuthStateChanged example_now ''u1'' (init_app Map.empty)) = Map.empty
        \<and> monthlyLimit (onAuthStateChanged example_now ''u1'' (init_app Map.empty)) = Fin 0)"
  by (simp add: onAuthStateChanged_def firestore_ready_def loadUserDoc_def Let_def
      newUser_def or_obj_def ensure_roommates_def init_app_def)

subsection \<open>C3: what the handlers do with missing or invalid input\<close>

lemma parseInt_empty: "parseInt [] = NaN"
  by (simp add: parseInt_def)

text \<open>
  C3, as amended. \<^verbatim>\<open>addFixedExpense\<close> with an empty name, or with an amount that is
  missing, not a number or not positive, changes nothing at all and shows nothing.
  \<^verbatim>\<open>saveGoal\<close> with an empty name, amount or date changes nothing but for the toast
  \<^verbatim>\<open>Please fill all details\<close>. \<^verbatim>\<open>saveTransaction\<close> with an empty merchant, or
  with an amount that is missing, not a number or zero, changes nothing but for the
  toast \<^verbatim>\<open>Please enter valid expense details\<close>. \<^verbatim>\<open>saveBudgetSettings\<close> with a limit
  that is not a number or is zero keeps the monthly limit. No handler returns an error
  to its caller. What \<^verbatim>\<open>saveLoan\<close> does with a duration of 0 is not part of this
  statement.
\<close>

theorem invalid_input_rejected:
  "(nameValue = [] \<or> amtValue = [] \<or> \<not> js_gt (parseInt amtValue) 0
      \<longrightarrow> addFixedExpense nameValue amtValue st = st)
   \<and> (nameValue = [] \<or> amountValue = [] \<or> dateValue = []
      \<longrightarrow> saveGoal parseDate now nameValue amountValue dateValue st
            = st\<lparr>toasts := toasts st @ [PleaseFillAllDetails]\<rparr>)
   \<and> (nameValue = [] \<or> amtValue = [] \<or> \<not> truthy (parseInt amtValue)
      \<longrightarrow> saveTransaction now nameValue amtValue catValue sentValue st
            = st\<lparr>toasts := toasts st @ [InvalidExpenseDetails]\<rparr>)
   \<and> (\<not> truthy (parseInt limitValue)
      \<longrightarrow> monthlyLimit (saveBudgetSettings (Some limitValue) st) = monthlyLimit st)"
  by (auto simp add: addFixedExpense_def saveGoal_def saveTransaction_def
      saveBudgetSettings_def showToast_def js_or_def Let_def parseInt_empty)

theorem invalid_input_rejected_witness:
  "\<not> js_gt (parseInt ''0'') 0
   \<and> addFixedExpense ''Rent'' ''0'' example_state = example_state
   \<and> saveGoal example_parseDate example_now ''Laptop'' [] ''2026-12-02'' example_state
       = example_state\<lparr>toasts := toasts example_state @ [PleaseFillAllDetails]\<rparr>
   \<and> \<not> truthy (parseInt ''abc'')
   \<and> saveTransaction example_now ''Coffee'' ''abc'' None None example_state
       = example_state\<lparr>toasts := toasts example_state @ [InvalidExpenseDetails]\<rparr>
   \<and> monthlyLimit (saveBudgetSettings (Some ''abc'') example_state) = monthlyLimit example_state"
proof -
  have z: "\<not> js_gt (parseInt ''0'') 0" by code_simp
  have n: "\<not> truthy (parseInt ''abc'')" by code_simp
  from invalid_input_rejected [where nameValue = "''Rent''" and amtValue = "''0''"
      and st = example_state and amountValue = "[]"]
    invalid_input_rejected [where nameValue = "''Laptop''" and amountValue = "[]"
      and dateValue = "''2026-12-02''" and st = example_state and now = example_now
      and parseDate = example_parseDate]
    invalid_input_rejected [where nameValue = "''Coffee''" and amtValue = "''abc''"
      and st = example_state and now = example_now and catValue = None and sentValue = None
      and limitValue = "''abc''"]
    z n
  show ?thesis by simp
qed

text \<open>
  The claim as stated fails: \<^verbatim>\<open>saveLoan\<close> with the duration \<^verbatim>\<open>0\<close> stores the loan,
  with the daily amount \<^verbatim>\<open>Infinity\<close>, shows \<^verbatim>\<open>Record Added!\<close>, and the daily safe
  spend drops from 466 to 0; and \<^verbatim>\<open>addFixedExpense\<close> with the amount \<^verbatim>\<open>0\<close> rejects
  its input without a toast.
\<close>

theorem saveLoan_zero_duration_counterexample:
  "activeLoans example_state = []
   \<and> activeLoans (saveLoan example_now ''borrow'' ''Ravi'' ''1000'' ''0'' example_state)
       = [\<lparr>loan_id = example_now, loan_type = ''borrow'', loan_person = ''Ravi'',
           loan_amount = Fin 1000, loan_duration = Fin 0, loan_daily = PInf\<rparr>]
   \<and> toasts (saveLoan example_now ''borrow'' ''Ravi'' ''1000'' ''0'' example_state)
       = toasts example_state @ [RecordAdded]
   \<and> recalculateDashboard_fix utc_date example_now example_state = Fin 466
   \<and> recalculateDashboard_fix utc_date example_now
        (saveLoan example_now ''borrow'' ''Ravi'' ''1000'' ''0'' example_state) = Fin 0
   \<and> toasts (addFixedExpense ''Rent'' ''0'' example_state) = toasts example_state"
  by code_simp

subsection \<open>C4: a lend loan does not change the daily safe spend\<close>

text \<open>
  C4. For every state of the ledger and every loan whose type is not \<^verbatim>\<open>borrow\<close> (a
  lend loan in particular), the daily safe spend is the same with the loan in the list
  of loans, at any position, and without it: adding it or removing it changes nothing.
  This holds for both copies of \<^verbatim>\<open>recalculateDashboard\<close>, and for a loan added by
  \<^verbatim>\<open>saveLoan\<close>. Only the loans of type \<^verbatim>\<open>borrow\<close> are read by the loop of the
  daily debt.
\<close>

theorem lend_loan_keeps_safe_spend:
  assumes "loan_type l \<noteq> ''borrow''"
  shows "recalculateDashboard cal now (st\<lparr>activeLoans := xs @ l # ys\<rparr>)
           = recalculateDashboard cal now (st\<lparr>activeLoans := xs @ ys\<rparr>)
       \<and> recalculateDashboard_fix cal now (st\<lparr>activeLoans := xs @ l # ys\<rparr>)
           = recalculateDashboard_fix cal now (st\<lparr>activeLoans := xs @ ys\<rparr>)
       \<and> (ty \<noteq> ''borrow'' \<longrightarrow>
            recalculateDashboard cal now (saveLoan t ty p a d st) = recalculateDashboard cal now st
          \<and> recalculateDashboard_fix cal now (saveLoan t ty p a d st) = recalculateDashboard_fix cal now st)"
  using assms
  by (simp add: recalculateDashboard_def recalculateDashboard_fix_def finalDaily_def
      dailyDebt_skip dailyDebt_snoc activeLoans_saveLoan)

theorem lend_loan_keeps_safe_spend_witness:
  "loan_type example_lend \<noteq> ''borrow''
   \<and> recalculateDashboard utc_date example_now (example_state\<lparr>activeLoans := [example_lend]\<rparr>)
       = recalculateDashboard utc_date example_now (example_state\<lparr>activeLoans := []\<rparr>)
   \<and> recalculateDashboard_fix utc_date example_now (example_state\<lparr>activeLoans := [example_lend]\<rparr>)
       = Fin 466
   \<and> recalculateDashboard_fix utc_date example_now
        (saveLoan example_now ''lend'' ''Asha'' ''900'' ''9'' example_state) = Fin 466"
proof -
  have h: "loan_type example_lend \<noteq> ''borrow''"
    by (simp add: example_lend_def)
  have e: "recalculateDashboard_fix utc_date example_now (example_state\<lparr>activeLoans := []\<rparr>) = Fin 466"
    "recalculateDashboard_fix utc_date example_now example_state = Fin 466"
    by code_simp+
  from lend_loan_keeps_safe_spend [OF h, where cal = utc_date and now = example_now
      and st = example_state and xs = "[]" and ys = "[]" and ty = "''lend''"
      and t = example_now and p = "''Asha''" and a = "''900''" and d = "''9''"] e h
  show ?thesis by simp
qed

subsection \<open>C5: the daily amount of a loan and its effect on the daily safe spend\<close>

text \<open>
  C5. A loan saved with an integer amount \<open>a\<close> and a duration \<open>d \<ge> 1\<close> is stored with
  the daily amount \<open>floor(a / d)\<close>. When \<open>a \<ge> 0\<close> and the loan is a borrow loan, it
  lowers the daily safe spend by exactly that daily amount as long as the result stays
  above the clamp at zero: if the safe spend displayed before the loan is \<open>w\<close> and
  \<open>floor(a / d) < w\<close>, the safe spend displayed after it is \<open>w - floor(a / d)\<close>; and
  a positive safe spend \<open>v\<close> after the loan can only come from the safe spend
  \<open>v + floor(a / d)\<close> before it. Both copies of \<^verbatim>\<open>recalculateDashboard\<close> do so.
  The witness is the scenario of the specification: a borrow loan of 10000 over 50 days
  has the daily amount 200; the safe spend goes from 466 to 266 in the copy that divides
  by the days of the month, and from 500 to 300 in \<^verbatim>\<open>src/backend/dashboard.js\<close> on
  that day.
\<close>

theorem saveLoan_daily_amount:
  assumes "parseInt amountValue = Fin a" and "parseInt durationValue = Fin d" and "1 \<le> d"
  shows "activeLoans (saveLoan now ty person amountValue durationValue st)
           = activeLoans st @
               [\<lparr>loan_id = now, loan_type = ty, loan_person = person, loan_amount = Fin a,
                 loan_duration = Fin d, loan_daily = Fin (a div d)\<rparr>]
       \<and> (0 \<le> a \<longrightarrow>
            (\<forall>w. recalculateDashboard cal t st = Fin w \<and> a div d < w
                 \<longrightarrow> recalculateDashboard cal t
                       (saveLoan now ''borrow'' person amountValue durationValue st)
                     = Fin (w - a div d))
          \<and> (\<forall>w. recalculateDashboard_fix cal t st = Fin w \<and> a div d < w
                 \<longrightarrow> recalculateDashboard_fix cal t
                       (saveLoan now ''borrow'' person amountValue durationValue st)
                     = Fin (w - a div d))
          \<and> (\<forall>v. recalculateDashboard cal t
                     (saveLoan now ''borrow'' person amountValue durationValue st) = Fin v \<and> 0 < v
                 \<longrightarrow> recalculateDashboard cal t st = Fin (v + a div d))
          \<and> (\<forall>v. recalculateDashboard_fix cal t
                     (saveLoan now ''borrow'' person amountValue durationValue st) = Fin v \<and> 0 < v
                 \<longrightarrow> recalculateDashboard_fix cal t st = Fin (v + a div d)))"
proof -
  have daily: "js_floor_div (parseInt amountValue) (parseInt durationValue) = Fin (a div d)"
    using assms by (simp add: js_floor_div_fin)
  have debt: "dailyDebt (activeLoans (saveLoan now ''borrow'' person amountValue durationValue st))
                = js_add (dailyDebt (activeLoans st)) (Fin (a div d))"
    by (simp add: activeLoans_saveLoan dailyDebt_snoc daily)
  have k: "0 \<le> a div d" if "0 \<le> a"
    using that assms by (simp add: pos_imp_zdiv_nonneg_iff)
  have forward: "finalDaily b (saveLoan now ''borrow'' person amountValue durationValue st)
                   = Fin (w - a div d)"
    if "0 \<le> a" "finalDaily b st = Fin w" "a div d < w" for b w
    using that(2,3) unfolding finalDaily_def debt
    by (simp add: max0_more_debt [OF k [OF that(1)]])
  have backward: "finalDaily b st = Fin (v + a div d)"
    if "0 \<le> a" "finalDaily b (saveLoan now ''borrow'' person amountValue durationValue st) = Fin v"
      "0 < v" for b v
    using that(2,3) unfolding finalDaily_def debt
    by (simp add: max0_less_debt [OF k [OF that(1)]])
  show ?thesis
    using assms forward backward
    by (simp add: activeLoans_saveLoan js_floor_div_fin recalculateDashboard_def
        recalculateDashboard_fix_def)
qed

theorem saveLoan_daily_amount_witness:
  "parseInt ''10000'' = Fin 10000 \<and> parseInt ''50'' = Fin 50 \<and> (1::int) \<le> 50
   \<and> (0::int) \<le> 10000 \<and> (10000::int) div 50 = 200
   \<and> map loan_daily (activeLoans (saveLoan example_now ''borrow'' ''Ravi'' ''10000'' ''50'' example_state))
       = [Fin 200]
   \<and> recalculateDashboard_fix utc_date example_now example_state = Fin 466
   \<and> recalculateDashboard_fix utc_date example_now
        (saveLoan example_now ''borrow'' ''Ravi'' ''10000'' ''50'' example_state) = Fin 266
   \<and> recalculateDashboard utc_date example_now example_state = Fin 500
   \<and> recalculateDashboard utc_date example_now
        (saveLoan example_now ''borrow'' ''Ravi'' ''10000'' ''50'' example_state) = Fin 300"
proof -
  have a: "parseInt ''10000'' = Fin 10000" by code_simp
  have d: "parseInt ''50'' = Fin 50" by code_simp
  have none: "activeLoans example_state = []" by code_simp
  have before: "recalculateDashboard_fix utc_date example_now example_state = Fin 466"
    "recalculateDashboard utc_date example_now example_state = Fin 500"
    by code_simp+
  note th = saveLoan_daily_amount [OF a d, where now = example_now and person = "''Ravi''"
      and st = example_state and cal = utc_date and t = example_now]
  from th [where ty = "''borrow''"] none
  have stored: "map loan_daily (activeLoans
      (saveLoan example_now ''borrow'' ''Ravi'' ''10000'' ''50'' example_state)) = [Fin 200]"
    by simp
  from th [where ty = "''borrow''"]
  have fwd: "recalculateDashboard_fix utc_date example_now example_state = Fin w \<and> 200 < w
      \<longrightarrow> recalculateDashboard_fix utc_date example_now
           (saveLoan example_now ''borrow'' ''Ravi'' ''10000'' ''50'' example_state) = Fin (w - 200)"
    "recalculateDashboard utc_date example_now example_state = Fin w \<and> 200 < w
      \<longrightarrow> recalculateDashboard utc_date example_now
           (saveLoan example_now ''borrow'' ''Ravi'' ''10000'' ''50'' example_state) = Fin (w - 200)"
    for w
    by simp_all
  from fwd(1) [of 466] fwd(2) [of 500] before
  have after: "recalculateDashboard_fix utc_date example_now
        (saveLoan example_now ''borrow'' ''Ravi'' ''10000'' ''50'' example_state) = Fin 266"
    "recalculateDashboard utc_date example_now
        (saveLoan example_now ''borrow'' ''Ravi'' ''10000'' ''50'' example_state) = Fin 300"
    by simp_all
  from a d stored before after show ?thesis by simp
qed

subsection \<open>C6: the daily contribution of a goal\<close>

lemma js_ceil_div_fin:
  "1 \<le> d \<Longrightarrow> 0 \<le> a \<Longrightarrow> js_ceil_div (Fin a) (Fin d) = Fin (ceil_div a d)"
  by (auto simp: js_ceil_div_def js_round_div_def is_zero_def is_inf_def signed_zero_def
      ceil_div_def)

lemma daysUntil_nonneg: "0 \<le> daysUntil deadline now"
proof -
  have "(- \<bar>deadline - now\<bar>) div 86400000 \<le> 0"
    by (rule div_nonpos_pos_le0) simp_all
  then show ?thesis by (simp add: daysUntil_def)
qed

lemma diffTime_fin: "js_abs (js_sub (Fin t) (Fin now)) = Fin \<bar>t - now\<bar>"
  by (simp add: js_sub_def)

lemma diffDays_fin:
  "js_or (js_ceil_div (js_abs (js_sub (Fin t) (Fin now))) (Fin 86400000)) (Fin 1)
     = Fin (max (daysUntil t now) 1)"
proof -
  have c: "js_ceil_div (Fin \<bar>t - now\<bar>) (Fin 86400000) = Fin (daysUntil t now)"
    by (simp add: js_ceil_div_fin ceil_div_def daysUntil_def)
  show ?thesis
    using daysUntil_nonneg [of t now]
    by (simp add: diffTime_fin c js_or_def max_def)
qed

lemma ceil_div_mult_ge:
  assumes "1 \<le> d"
  shows "a \<le> ceil_div a d * d"
proof -
  have "(- a) div d * d + (- a) mod d = - a"
    by simp
  moreover have "0 \<le> (- a) mod d"
    using assms by simp
  ultimately have "(- a) div d * d \<le> - a"
    by linarith
  then show ?thesis by (simp add: ceil_div_def)
qed

lemma activeGoals_saveGoal_prefix:
  "take (length (activeGoals s)) (activeGoals (saveGoal pd now n a d s)) = activeGoals s"
  by (simp add: saveGoal_def Let_def)

lemma step_keeps_goals:
  "(\<forall>i. act \<noteq> RemoveGoal i) \<Longrightarrow>
   take (length (activeGoals s)) (activeGoals (step pd s act)) = activeGoals s"
  by (cases act)
    (simp_all add: activeGoals_saveGoal_prefix saveTransaction_def addFixedExpense_def
      removeFixedExpense_def saveBudgetSettings_def saveLoan_def saveProfile_def Let_def)

text \<open>
  C6. A goal saved with a name, a target amount \<open>a \<ge> 0\<close> and a deadline that is a date
  is stored with \<open>daysLeft = max(daysUntil(deadline), 1)\<close>, which is at least 1, and
  with the daily contribution \<open>ceil(a / daysLeft)\<close>, so that
  \<open>dailyContribution * daysLeft \<ge> a\<close>. Here \<open>daysUntil\<close> is the distance between
  now and the deadline in whole days, rounded up. The contribution is computed by
  \<^verbatim>\<open>saveGoal\<close> only: every action but a removal leaves the goals stored before it,
  with their daily contributions, as they are.
\<close>

theorem saveGoal_daily_contribution:
  assumes "nameValue \<noteq> []" and "amountValue \<noteq> []" and "dateValue \<noteq> []"
    and "parseInt amountValue = Fin a" and "0 \<le> a"
    and "parseDate dateValue = Fin deadline"
  shows "activeGoals (saveGoal parseDate now nameValue amountValue dateValue st)
           = activeGoals st @
               [\<lparr>goal_id = now, goal_name = nameValue, goal_amount = Fin a,
                 goal_deadline = dateValue,
                 goal_daily = Fin (ceil_div a (max (daysUntil deadline now) 1)),
                 goal_daysLeft = Fin (max (daysUntil deadline now) 1)\<rparr>]
       \<and> 1 \<le> max (daysUntil deadline now) 1
       \<and> a \<le> ceil_div a (max (daysUntil deadline now) 1) * max (daysUntil deadline now) 1
       \<and> (\<forall>act s. (\<forall>i. act \<noteq> RemoveGoal i) \<longrightarrow>
             take (length (activeGoals s)) (activeGoals (step parseDate s act)) = activeGoals s)"
proof -
  have goals: "activeGoals (saveGoal parseDate now nameValue amountValue dateValue st)
           = activeGoals st @
               [\<lparr>goal_id = now, goal_name = nameValue, goal_amount = Fin a,
                 goal_deadline = dateValue,
                 goal_daily = Fin (ceil_div a (max (daysUntil deadline now) 1)),
                 goal_daysLeft = Fin (max (daysUntil deadline now) 1)\<rparr>]"
    using assms
    by (simp add: saveGoal_def Let_def diffDays_fin js_ceil_div_fin)
  have ceil: "a \<le> ceil_div a (max (daysUntil deadline now) 1) * max (daysUntil deadline now) 1"
    by (rule ceil_div_mult_ge) simp
  show ?thesis
    using goals ceil step_keeps_goals by simp
qed

theorem saveGoal_daily_contribution_witness:
  "parseInt ''10000'' = Fin 10000 \<and> example_parseDate ''2026-12-02'' = Fin 1796169600000
   \<and> daysUntil 1796169600000 example_now = 30
   \<and> map goal_daily (activeGoals
        (saveGoal example_parseDate example_now ''Laptop'' ''10000'' ''2026-12-02'' example_state))
       = [Fin 334]
   \<and> map goal_daysLeft (activeGoals
        (saveGoal example_parseDate example_now ''Laptop'' ''10000'' ''2026-12-02'' example_state))
       = [Fin 30]
   \<and> (10000::int) \<le> 334 * 30"
proof -
  have a: "parseInt ''10000'' = Fin 10000" by code_simp
  have p: "example_parseDate ''2026-12-02'' = Fin 1796169600000"
    by (simp add: example_parseDate_def)
  have d: "daysUntil 1796169600000 example_now = 30"
    by (simp add: daysUntil_def example_now_def)
  have c: "ceil_div 10000 30 = 334"
    by (simp add: ceil_div_def)
  have none: "activeGoals example_state = []" by code_simp
  from saveGoal_daily_contribution [where nameValue = "''Laptop''"
      and amountValue = "''10000''" and dateValue = "''2026-12-02''"
      and parseDate = example_parseDate and a = 10000 and deadline = 1796169600000
      and now = example_now and st = example_state] a p d c none
  show ?thesis by simp
qed

subsection \<open>C7: the sentiment totals partition the filtered transactions\<close>

lemma js_add_swap_worthy:
  "js_add (js_add (js_add w a) r) i = js_add (js_add (js_add w r) i) a"
  by (metis js_add_assoc js_add_commute)

lemma js_add_swap_regret:
  "js_add (js_add w (js_add r a)) i = js_add (js_add (js_add w r) i) a"
  by (metis js_add_assoc js_add_commute)

lemma js_add_swap_ignore:
  "js_add (js_add w r) (js_add i a) = js_add (js_add (js_add w r) i) a"
  by (simp add: js_add_assoc)

lemma sentiment_step_triple:
  "sentiment_step (w, r, i) t =
     (if tx_sentiment t = ''worthy'' then (js_add w (js_or (tx_amount t) (Fin 0)), r, i)
      else if tx_sentiment t = ''regret'' then (w, js_add r (js_or (tx_amount t) (Fin 0)), i)
      else (w, r, js_add i (js_or (tx_amount t) (Fin 0))))"
  by (simp add: sentiment_step_def)

lemma sentiment_fold_total:
  "(case foldl sentiment_step (w, r, i) xs of
      (w', r', i') \<Rightarrow> js_add (js_add w' r') i')
     = foldl js_add (js_add (js_add w r) i) (map (\<lambda>t. js_or (tx_amount t) (Fin 0)) xs)"
proof (induction xs arbitrary: w r i)
  case Nil
  then show ?case by simp
next
  case (Cons t xs)
  show ?case
    by (simp add: sentiment_step_triple Cons.IH js_add_swap_worthy js_add_swap_regret
        js_add_swap_ignore)
qed

lemma sentiment_fold_groups:
  "foldl sentiment_step (w, r, i) xs
     = (foldl js_add w (map (\<lambda>t. js_or (tx_amount t) (Fin 0))
                          (filter (\<lambda>t. tx_sentiment t = ''worthy'') xs)),
        foldl js_add r (map (\<lambda>t. js_or (tx_amount t) (Fin 0))
                          (filter (\<lambda>t. tx_sentiment t = ''regret'') xs)),
        foldl js_add i (map (\<lambda>t. js_or (tx_amount t) (Fin 0))
                          (filter (\<lambda>t. tx_sentiment t \<noteq> ''worthy'' \<and> tx_sentiment t \<noteq> ''regret'') xs)))"
  by (induction xs arbitrary: w r i) (simp_all add: sentiment_step_triple)

lemma foldl_js_add_finite:
  "list_all amount_finite xs \<Longrightarrow>
   foldl js_add (Fin k) (map (\<lambda>t. js_or (tx_amount t) (Fin 0)) xs)
     = Fin (k + sum_list (map amount_int xs))"
proof (induction xs arbitrary: k)
  case Nil
  then show ?case by simp
next
  case (Cons t xs)
  from Cons.prems obtain a where a: "tx_amount t = Fin a"
    by (auto simp: amount_finite_def split: jsnum.splits)
  have "js_add (Fin k) (js_or (tx_amount t) (Fin 0)) = Fin (k + a)"
    by (simp add: a js_or_def)
  with Cons show ?case
    by (simp add: a amount_int_def add.assoc)
qed

lemma list_all_filtered:
  "list_all P (transactions st) \<Longrightarrow> list_all P (getFilteredTransactions now st)"
  by (simp add: getFilteredTransactions_def list_all_iff)

text \<open>
  C7. Whatever the transactions and the time filter, the total that
  \<^verbatim>\<open>updateSentimentAnalysis\<close> displays, \<open>worthy + regret + ignore\<close>, is the sum of
  the amounts of the filtered transactions, and each of the three totals is the sum
  over the filtered transactions of its sentiment (every sentiment other than
  \<^verbatim>\<open>worthy\<close> and \<^verbatim>\<open>regret\<close> counts as the third). When the amounts are integers the
  total is their exact sum. The filters \<^verbatim>\<open>day\<close>, \<^verbatim>\<open>week\<close> and \<^verbatim>\<open>month\<close> select the
  transactions whose timestamp is later than now minus 24 hours, 7 times 24 hours and
  30 times 24 hours; any other filter selects them all.
\<close>

theorem sentiment_totals_partition:
  "st_total (updateSentimentAnalysis now st)
     = js_add (js_add (st_worthy (updateSentimentAnalysis now st))
                      (st_regret (updateSentimentAnalysis now st)))
              (st_ignore (updateSentimentAnalysis now st))
   \<and> st_total (updateSentimentAnalysis now st)
       = js_sum (map (\<lambda>t. js_or (tx_amount t) (Fin 0)) (getFilteredTransactions now st))
   \<and> st_worthy (updateSentimentAnalysis now st)
       = js_sum (map (\<lambda>t. js_or (tx_amount t) (Fin 0))
                  (filter (\<lambda>t. tx_sentiment t = ''worthy'') (getFilteredTransactions now st)))
   \<and> st_regret (updateSentimentAnalysis now st)
       = js_sum (map (\<lambda>t. js_or (tx_amount t) (Fin 0))
                  (filter (\<lambda>t. tx_sentiment t = ''regret'') (getFilteredTransactions now st)))
   \<and> st_ignore (updateSentimentAnalysis now st)
       = js_sum (map (\<lambda>t. js_or (tx_amount t) (Fin 0))
                  (filter (\<lambda>t. tx_sentiment t \<noteq> ''worthy'' \<and> tx_sentiment t \<noteq> ''regret'')
                     (getFilteredTransactions now st)))
   \<and> (list_all amount_finite (transactions st) \<longrightarrow>
        st_total (updateSentimentAnalysis now st)
          = Fin (sum_list (map amount_int (getFilteredTransactions now st))))
   \<and> (\<forall>t. tx_timestamp t \<noteq> 0 \<longrightarrow>
        (t \<in> set (getFilteredTransactions now (st\<lparr>currentFilter := ''day''\<rparr>))
           \<longleftrightarrow> t \<in> set (transactions st) \<and> now - 24 * 60 * 60 * 1000 < tx_timestamp t)
      \<and> (t \<in> set (getFilteredTransactions now (st\<lparr>currentFilter := ''week''\<rparr>))
           \<longleftrightarrow> t \<in> set (transactions st) \<and> now - 7 * (24 * 60 * 60 * 1000) < tx_timestamp t)
      \<and> (t \<in> set (getFilteredTransactions now (st\<lparr>currentFilter := ''month''\<rparr>))
           \<longleftrightarrow> t \<in> set (transactions st) \<and> now - 30 * (24 * 60 * 60 * 1000) < tx_timestamp t)
      \<and> (t \<in> set (getFilteredTransactions now (st\<lparr>currentFilter := ''all''\<rparr>))
           \<longleftrightarrow> t \<in> set (transactions st)))"
proof -
  let ?F = "getFilteredTransactions now st"
  have total: "st_total (updateSentimentAnalysis now st)
       = js_sum (map (\<lambda>t. js_or (tx_amount t) (Fin 0)) ?F)"
    using sentiment_fold_total [of "Fin 0" "Fin 0" "Fin 0" ?F]
    by (simp add: updateSentimentAnalysis_def js_sum_def split: prod.splits)
  have groups: "st_worthy (updateSentimentAnalysis now st)
       = js_sum (map (\<lambda>t. js_or (tx_amount t) (Fin 0))
                  (filter (\<lambda>t. tx_sentiment t = ''worthy'') ?F))"
    "st_regret (updateSentimentAnalysis now st)
       = js_sum (map (\<lambda>t. js_or (tx_amount t) (Fin 0))
                  (filter (\<lambda>t. tx_sentiment t = ''regret'') ?F))"
    "st_ignore (updateSentimentAnalysis now st)
       = js_sum (map (\<lambda>t. js_or (tx_amount t) (Fin 0))
                  (filter (\<lambda>t. tx_sentiment t \<noteq> ''worthy'' \<and> tx_sentiment t \<noteq> ''regret'') ?F))"
    by (simp_all add: updateSentimentAnalysis_def js_sum_def sentiment_fold_groups)
  have parts: "st_total (updateSentimentAnalysis now st)
     = js_add (js_add (st_worthy (updateSentimentAnalysis now st))
                      (st_regret (updateSentimentAnalysis now st)))
              (st_ignore (updateSentimentAnalysis now st))"
    by (simp add: updateSentimentAnalysis_def split: prod.splits)
  have fin: "st_total (updateSentimentAnalysis now st) = Fin (sum_list (map amount_int ?F))"
    if "list_all amount_finite (transactions st)"
    using foldl_js_add_finite [OF list_all_filtered [OF that], of 0 now]
    by (simp add: total js_sum_def)
  have windows: "\<forall>t. tx_timestamp t \<noteq> 0 \<longrightarrow>
        (t \<in> set (getFilteredTransactions now (st\<lparr>currentFilter := ''day''\<rparr>))
           \<longleftrightarrow> t \<in> set (transactions st) \<and> now - 24 * 60 * 60 * 1000 < tx_timestamp t)
      \<and> (t \<in> set (getFilteredTransactions now (st\<lparr>currentFilter := ''week''\<rparr>))
           \<longleftrightarrow> t \<in> set (transactions st) \<and> now - 7 * (24 * 60 * 60 * 1000) < tx_timestamp t)
      \<and> (t \<in> set (getFilteredTransactions now (st\<lparr>currentFilter := ''month''\<rparr>))
           \<longleftrightarrow> t \<in> set (transactions st) \<and> now - 30 * (24 * 60 * 60 * 1000) < tx_timestamp t)
      \<and> (t \<in> set (getFilteredTransactions now (st\<lparr>currentFilter := ''all''\<rparr>))
           \<longleftrightarrow> t \<in> set (transactions st))"
    by (auto simp add: getFilteredTransactions_def oneDayMs_def Let_def)
  show ?thesis
    using total groups parts fin windows by blast
qed

theorem sentiment_totals_partition_witness:
  "list_all amount_finite (transactions example_spending)
   \<and> map tx_merchant (getFilteredTransactions example_now example_spending)
       = [''Taxi'', ''Coffee'', ''Groceries'']
   \<and> sum_list (map amount_int (getFilteredTransactions example_now example_spending)) = 950
   \<and> st_total (updateSentimentAnalysis example_now example_spending) = Fin 950
   \<and> st_worthy (updateSentimentAnalysis example_now example_spending) = Fin 700
   \<and> st_regret (updateSentimentAnalysis example_now example_spending) = Fin 0
   \<and> st_ignore (updateSentimentAnalysis example_now example_spending) = Fin 250
   \<and> map tx_merchant
        (getFilteredTransactions example_now (example_spending\<lparr>currentFilter := ''day''\<rparr>))
       = [''Taxi'', ''Coffee'']
   \<and> map tx_merchant
        (getFilteredTransactions example_now (example_spending\<lparr>currentFilter := ''all''\<rparr>))
       = [''Taxi'', ''Coffee'', ''Groceries'', ''Shoes'']"
proof -
  have f: "list_all amount_finite (transactions example_spending)"
    by code_simp
  have m: "map tx_merchant (getFilteredTransactions example_now example_spending)
       = [''Taxi'', ''Coffee'', ''Groceries'']"
    by code_simp
  have s: "sum_list (map amount_int (getFilteredTransactions example_now example_spending)) = 950"
    by code_simp
  have g: "st_worthy (updateSentimentAnalysis example_now example_spending) = Fin 700"
    "st_regret (updateSentimentAnalysis example_now example_spending) = Fin 0"
    "st_ignore (updateSentimentAnalysis example_now example_spending) = Fin 250"
    by code_simp+
  have w: "map tx_merchant
        (getFilteredTransactions example_now (example_spending\<lparr>currentFilter := ''day''\<rparr>))
       = [''Taxi'', ''Coffee'']"
    "map tx_merchant
        (getFilteredTransactions example_now (example_spending\<lparr>currentFilter := ''all''\<rparr>))
       = [''Taxi'', ''Coffee'', ''Groceries'', ''Shoes'']"
    by code_simp+
  from sentiment_totals_partition [where now = example_now and st = example_spending] f
  have "st_total (updateSentimentAnalysis example_now example_spending)
          = Fin (sum_list (map amount_int (getFilteredTransactions example_now example_spending)))"
    by blast
  then have "st_total (updateSentimentAnalysis example_now example_spending) = Fin 950"
    by (simp only: s)
  then show ?thesis
    using f m s g w by simp
qed

subsection \<open>C8: the tiers of the heatmap\<close>

lemma spendingMap_snoc:
  "spendingMap cal now (txs @ [tx]) =
     (if cal_month (cal (tx_time now tx)) = cal_month (cal now)
         \<and> cal_year (cal (tx_time now tx)) = cal_year (cal now)
      then (spendingMap cal now txs)(cal_day (cal (tx_time now tx)) \<mapsto>
              js_add (dayAmount (spendingMap cal now txs) (cal_day (cal (tx_time now tx))))
                     (js_or (tx_amount tx) (Fin 0)))
      else spendingMap cal now txs)"
  by (simp add: spendingMap_def dayAmount_def)

lemma dayAmount_upd:
  "dayAmount (m(k \<mapsto> v)) i = (if i = k then js_or v (Fin 0) else dayAmount m i)"
  by (simp add: dayAmount_def)

lemma dayAmount_empty: "dayAmount Map.empty i = Fin 0"
  by (simp add: dayAmount_def)

lemma js_or_fin: "js_or (Fin x) (Fin 0) = Fin x"
  by (simp add: js_or_def)

lemma dayAmount_spendingMap:
  "list_all amount_finite txs \<Longrightarrow>
   dayAmount (spendingMap cal now txs) i = Fin (daySpend cal now txs i)"
proof (induction txs arbitrary: i rule: rev_induct)
  case Nil
  show ?case by (simp add: spendingMap_def dayAmount_empty daySpend_def)
next
  case (snoc tx txs)
  from snoc.prems obtain a where a: "tx_amount tx = Fin a"
    by (auto simp: amount_finite_def split: jsnum.splits)
  from snoc have IH: "dayAmount (spendingMap cal now txs) j = Fin (daySpend cal now txs j)" for j
    by simp
  have amt: "amount_int tx = a"
    by (simp add: a amount_int_def)
  show ?case
    by (simp add: spendingMap_snoc dayAmount_upd IH a amt js_or_fin daySpend_def on_day_def)
qed

lemma daySpend_nonneg:
  "list_all amount_ok txs \<Longrightarrow> 0 \<le> daySpend cal now txs i"
  unfolding daySpend_def
  by (rule sum_list_nonneg)
    (auto simp: list_all_iff amount_ok_def amount_int_def split: jsnum.splits)

lemma level_colorClass: "level (colorClass (Fin s)) = tier s"
  by (simp add: level_def colorClass_def tier_def Let_def)

lemma tier_mono: "a \<le> b \<Longrightarrow> tier a \<le> tier b"
  by (simp add: tier_def)

lemma truthy_shape:
  "truthy (if A then NaN else if B then signed_zero n else Fin w)
   \<Longrightarrow> \<exists>a. (if A then NaN else if B then signed_zero n else Fin w) = Fin a"
  by (simp add: signed_zero_def split: if_splits)

lemma parseInt_truthy_fin:
  assumes "truthy (parseInt s)"
  shows "\<exists>a. parseInt s = Fin a"
  using assms unfolding parseInt_def Let_def by (rule truthy_shape)

lemma saveTransaction_amount_finite:
  assumes "list_all amount_finite (transactions st)"
  shows "list_all amount_finite
           (transactions (saveTransaction now nameValue amtValue catValue sentValue st))"
proof (cases "nameValue = [] \<or> \<not> truthy (parseInt amtValue)")
  case True
  then show ?thesis
    using assms by (auto simp: saveTransaction_def Let_def)
next
  case False
  then obtain a where "parseInt amtValue = Fin a"
    using parseInt_truthy_fin by blast
  with False assms show ?thesis
    by (simp add: saveTransaction_def Let_def amount_finite_def)
qed

text \<open>
  C8, as amended. \<^verbatim>\<open>saveTransaction\<close> keeps every amount of the ledger an integer, of
  either sign. For such transactions, the cell that \<^verbatim>\<open>renderHeatmap\<close> draws for a
  day of the current month carries that day's spend total, and its level follows the
  absolute thresholds: 3 from 2000 on, 2 from 500 on, 1 above 0, and 0 otherwise. A day
  with no spend has the lowest level, a day with a spend of 2000 or more has the
  highest, and a larger spend never has a lower level. The lowest level is the level of
  exactly the days whose spend is 0 or less: a day whose transactions sum to a negative
  total is drawn like a day without spend. Only when no amount is negative is no total
  negative, and the lowest level the level of exactly the days whose spend is 0.
\<close>

theorem heatmap_tiers:
  assumes "list_all amount_finite txs"
  shows "renderHeatmap cal now txs
           = map (\<lambda>i. (i, Fin (daySpend cal now txs i), colorClass (Fin (daySpend cal now txs i))))
               [1 .. daysInMonth (cal_year (cal now)) (cal_month (cal now))]
       \<and> (\<forall>i. level (colorClass (Fin (daySpend cal now txs i)))
                = (if 2000 \<le> daySpend cal now txs i then 3
                   else if 500 \<le> daySpend cal now txs i then 2
                   else if 0 < daySpend cal now txs i then 1 else 0))
       \<and> (\<forall>i. daySpend cal now txs i = 0
              \<longrightarrow> level (colorClass (Fin (daySpend cal now txs i))) = 0)
       \<and> (\<forall>i. 2000 \<le> daySpend cal now txs i
              \<longrightarrow> level (colorClass (Fin (daySpend cal now txs i))) = 3)
       \<and> (\<forall>i j. daySpend cal now txs i \<le> daySpend cal now txs j
              \<longrightarrow> level (colorClass (Fin (daySpend cal now txs i)))
                    \<le> level (colorClass (Fin (daySpend cal now txs j))))
       \<and> (list_all amount_ok txs \<longrightarrow>
            (\<forall>i. 0 \<le> daySpend cal now txs i
               \<and> (level (colorClass (Fin (daySpend cal now txs i))) = 0
                     \<longleftrightarrow> daySpend cal now txs i = 0)))
       \<and> (\<forall>i. level (colorClass (Fin (daySpend cal now txs i))) = 0
                 \<longleftrightarrow> daySpend cal now txs i \<le> 0)"
proof -
  have cells: "renderHeatmap cal now txs
           = map (\<lambda>i. (i, Fin (daySpend cal now txs i), colorClass (Fin (daySpend cal now txs i))))
               [1 .. daysInMonth (cal_year (cal now)) (cal_month (cal now))]"
    by (simp add: renderHeatmap_def dayAmount_spendingMap [OF assms])
  have tiers: "level (colorClass (Fin (daySpend cal now txs i)))
                  = (if 2000 \<le> daySpend cal now txs i then 3
                     else if 500 \<le> daySpend cal now txs i then 2
                     else if 0 < daySpend cal now txs i then 1 else 0)" for i
    by (simp add: level_colorClass tier_def)
  have zero: "daySpend cal now txs i = 0
                \<longrightarrow> level (colorClass (Fin (daySpend cal now txs i))) = 0" for i
    by (simp add: level_colorClass tier_def)
  have top: "2000 \<le> daySpend cal now txs i
                \<longrightarrow> level (colorClass (Fin (daySpend cal now txs i))) = 3" for i
    by (simp add: level_colorClass tier_def)
  have mono: "daySpend cal now txs i \<le> daySpend cal now txs j
              \<longrightarrow> level (colorClass (Fin (daySpend cal now txs i)))
                    \<le> level (colorClass (Fin (daySpend cal now txs j)))" for i j
    by (simp add: level_colorClass tier_mono)
  have none: "0 \<le> daySpend cal now txs i
               \<and> (level (colorClass (Fin (daySpend cal now txs i))) = 0
                     \<longleftrightarrow> daySpend cal now txs i = 0)"
    if "list_all amount_ok txs" for i
    using daySpend_nonneg [OF that, of cal now i] by (simp add: level_colorClass tier_def)
  have lowest: "level (colorClass (Fin (daySpend cal now txs i))) = 0
                  \<longleftrightarrow> daySpend cal now txs i \<le> 0" for i
    by (simp add: level_colorClass tier_def)
  show ?thesis
    using cells tiers zero top mono none lowest by blast
qed

theorem heatmap_tiers_witness:
  "list_all amount_finite (transactions example_spending)
   \<and> list_all amount_ok (transactions example_spending)
   \<and> daySpend utc_date example_now (transactions example_spending) 1 = 600
   \<and> daySpend utc_date example_now (transactions example_spending) 2 = 350
   \<and> daySpend utc_date example_now (transactions example_spending) 3 = 0
   \<and> level (colorClass (Fin 600)) = 2
   \<and> level (colorClass (Fin 350)) = 1
   \<and> level (colorClass (Fin 0)) = 0
   \<and> take 3 (renderHeatmap utc_date example_now (transactions example_spending))
       = [(1, Fin 600, ''bg-brand-warning/60 border border-brand-warning/50''),
          (2, Fin 350, ''bg-brand-accent/40 border border-brand-accent/50''),
          (3, Fin 0, ''bg-white/5 border border-white/5'')]
   \<and> list_all amount_finite (transactions example_refund)
   \<and> daySpend utc_date example_now (transactions example_refund) 2 = - 5
   \<and> level (colorClass (Fin (- 5))) = 0"
proof -
  have f: "list_all amount_finite (transactions example_spending)"
    by code_simp
  have k: "list_all amount_ok (transactions example_spending)"
    by code_simp
  have d: "daySpend utc_date example_now (transactions example_spending) 1 = 600"
    "daySpend utc_date example_now (transactions example_spending) 2 = 350"
    "daySpend utc_date example_now (transactions example_spending) 3 = 0"
    by code_simp+
  have cells: "take 3 (renderHeatmap utc_date example_now (transactions example_spending))
       = [(1, Fin 600, ''bg-brand-warning/60 border border-brand-warning/50''),
          (2, Fin 350, ''bg-brand-accent/40 border border-brand-accent/50''),
          (3, Fin 0, ''bg-white/5 border border-white/5'')]"
    by code_simp
  from heatmap_tiers [OF f, where cal = utc_date and now = example_now]
  have t: "level (colorClass (Fin (daySpend utc_date example_now
                  (transactions example_spending) i)))
             = (if 2000 \<le> daySpend utc_date example_now (transactions example_spending) i
                then 3
                else if 500 \<le> daySpend utc_date example_now (transactions example_spending) i
                then 2
                else if 0 < daySpend utc_date example_now (transactions example_spending) i
                then 1 else 0)" for i
    by blast
  from t [of 1] t [of 2] t [of 3]
  have l: "level (colorClass (Fin 600)) = 2" "level (colorClass (Fin 350)) = 1"
    "level (colorClass (Fin 0)) = 0"
    by (simp_all add: d)
  have g: "list_all amount_finite (transactions example_refund)"
    by code_simp
  have e: "daySpend utc_date example_now (transactions example_refund) 2 = - 5"
    by code_simp
  from heatmap_tiers [OF g, where cal = utc_date and now = example_now]
  have "level (colorClass (Fin (daySpend utc_date example_now
                  (transactions example_refund) 2))) = 0
          \<longleftrightarrow> daySpend utc_date example_now (transactions example_refund) 2 \<le> 0"
    by blast
  then have r: "level (colorClass (Fin (- 5))) = 0"
    by (simp add: e)
  from f k d cells l g e r show ?thesis by simp
qed

text \<open>
  The claim as stated fails on a ledger the dashboard builds: \<^verbatim>\<open>saveTransaction\<close>
  accepts the amount \<^verbatim>\<open>-5\<close>, the spend total of that day is \<open>-5\<close>, not \<open>0\<close>, and the
  day's cell has the lowest level.
\<close>

theorem heatmap_negative_spend_counterexample:
  "map tx_amount (transactions example_refund) = [Fin (- 5)]
   \<and> last (toasts example_refund) = SpentAt (Fin (- 5)) ''Refund''
   \<and> daySpend utc_date example_now (transactions example_refund) 2 = - 5
   \<and> daySpend utc_date example_now (transactions example_refund) 2 \<noteq> 0
   \<and> take 2 (renderHeatmap utc_date example_now (transactions example_refund))
       = [(1, Fin 0, ''bg-white/5 border border-white/5''),
          (2, Fin (- 5), ''bg-white/5 border border-white/5'')]
   \<and> level (colorClass (dayAmount
        (spendingMap utc_date example_now (transactions example_refund)) 2)) = 0"
  by code_simp

subsection \<open>C9: removing a fixed expense or a goal that is not there\<close>

lemma splice1_beyond: "int (length xs) \<le> index \<Longrightarrow> splice1 index xs = xs"
  by (simp add: splice1_def Let_def min_def)

lemma splice1_negative:
  "- int (length xs) \<le> index \<Longrightarrow> index < 0 \<Longrightarrow>
   splice1 index xs
     = take (nat (int (length xs) + index)) xs @ drop (nat (int (length xs) + index) + 1) xs"
  by (simp add: splice1_def Let_def min_def max_def nat_add_distrib)

lemma splice1_far_negative:
  "index < - int (length xs) \<Longrightarrow> splice1 index xs = drop 1 xs"
  by (cases xs) (simp_all add: splice1_def Let_def min_def max_def)

lemma filter_absent_id:
  "gid \<notin> goal_id ` set gs \<Longrightarrow> filter (\<lambda>g. goal_id g \<noteq> gid) gs = gs"
  by (induction gs) auto

text \<open>
  C9, as amended. \<^verbatim>\<open>removeFixedExpense\<close> with an index at or beyond the length of
  the list leaves the fixed expenses unchanged, and \<^verbatim>\<open>removeGoal\<close> with an id that
  no goal has leaves the goals unchanged; neither fails (\<^verbatim>\<open>removeGoal\<close> still shows
  \<^verbatim>\<open>Goal removed\<close>). A negative index is not a no-op: \<^verbatim>\<open>splice\<close> counts it from
  the end, so the expense at \<open>length + index\<close> is removed, and the first one when
  \<open>index < - length\<close>.
\<close>

theorem remove_absent_is_noop:
  "(int (length (fixedExpenses st)) \<le> index
      \<longrightarrow> fixedExpenses (removeFixedExpense index st) = fixedExpenses st)
   \<and> (gid \<notin> goal_id ` set (activeGoals st)
      \<longrightarrow> activeGoals (removeGoal gid st) = activeGoals st)
   \<and> (- int (length (fixedExpenses st)) \<le> index \<and> index < 0
      \<longrightarrow> fixedExpenses (removeFixedExpense index st)
            = take (nat (int (length (fixedExpenses st)) + index)) (fixedExpenses st)
              @ drop (nat (int (length (fixedExpenses st)) + index) + 1) (fixedExpenses st))
   \<and> (index < - int (length (fixedExpenses st))
      \<longrightarrow> fixedExpenses (removeFixedExpense index st) = drop 1 (fixedExpenses st))
   \<and> toasts (removeFixedExpense index st) = toasts st
   \<and> toasts (removeGoal gid st) = toasts st @ [GoalRemoved]"
  by (simp add: removeFixedExpense_def removeGoal_def splice1_beyond splice1_negative
      splice1_far_negative filter_absent_id)

theorem remove_absent_is_noop_witness:
  "int (length (fixedExpenses example_state)) \<le> 2
   \<and> fixedExpenses (removeFixedExpense 2 example_state) = fixedExpenses example_state
   \<and> length (fixedExpenses example_state) = 2
   \<and> 7 \<notin> goal_id ` set (activeGoals
        (saveGoal example_parseDate example_now ''Laptop'' ''10000'' ''2026-12-02'' example_state))
   \<and> activeGoals (removeGoal 7
        (saveGoal example_parseDate example_now ''Laptop'' ''10000'' ''2026-12-02'' example_state))
       = activeGoals
           (saveGoal example_parseDate example_now ''Laptop'' ''10000'' ''2026-12-02'' example_state)
   \<and> map goal_id (activeGoals
        (saveGoal example_parseDate example_now ''Laptop'' ''10000'' ''2026-12-02'' example_state))
       = [example_now]"
proof -
  have len: "length (fixedExpenses example_state) = 2"
    by code_simp
  have ids: "map goal_id (activeGoals
        (saveGoal example_parseDate example_now ''Laptop'' ''10000'' ''2026-12-02'' example_state))
       = [example_now]"
    by code_simp
  have absent: "7 \<notin> goal_id ` set (activeGoals
        (saveGoal example_parseDate example_now ''Laptop'' ''10000'' ''2026-12-02'' example_state))"
    using ids by (simp add: example_now_def flip: set_map)
  from remove_absent_is_noop [where st = example_state and index = 2]
    remove_absent_is_noop [where gid = 7 and st = "saveGoal example_parseDate example_now
      ''Laptop'' ''10000'' ''2026-12-02'' example_state"]
    len ids absent
  show ?thesis by simp
qed

text \<open>
  The claim as stated fails for an index outside the sequence on its lower side: on
  the two fixed expenses of the example, the index \<open>-1\<close> removes Internet and the
  index \<open>-7\<close> removes Rent.
\<close>

theorem remove_negative_index_counterexample:
  "map fe_name (fixedExpenses example_state) = [''Rent'', ''Internet'']
   \<and> map fe_name (fixedExpenses (removeFixedExpense (- 1) example_state)) = [''Rent'']
   \<and> map fe_name (fixedExpenses (removeFixedExpense (- 7) example_state)) = [''Internet'']"
  by code_simp

subsection \<open>C10: the monthly limit is never saved\<close>

lemma saveState_userData_limit:
  "d_monthlyLimit (userData (saveState st)) = d_monthlyLimit (userData st)"
  by (simp add: saveState_def)

lemma saveState_userData_fields:
  "d_transactions (userData (saveState st)) = Some (transactions st)"
  "d_fixedExpenses (userData (saveState st)) = Some (fixedExpenses st)"
  "d_goals (userData (saveState st)) = Some (activeGoals st)"
  "d_loans (userData (saveState st)) = Some (activeLoans st)"
  "d_chatGroups (userData (saveState st)) = Some (chatStore st)"
  "d_groupMembers (userData (saveState st)) = Some (groupMembers st)"
  "d_name (userData (saveState st)) \<noteq> None"
  "d_phone (userData (saveState st)) \<noteq> None"
  "d_avatar (userData (saveState st)) \<noteq> None"
  by (simp_all add: saveState_def)

lemma saveState_users:
  "uid st = Some u \<Longrightarrow>
   users (saveState st) u
     = Some (merge_doc (or_obj (users st u) empty_doc) (userData (saveState st)))"
  by (simp add: saveState_def syncUserData_def Let_def)

lemma saveState_remote_limit:
  "uid st = Some u \<Longrightarrow>
   remote_limit (saveState st) u = merge_field (remote_limit st u) (d_monthlyLimit (userData st))"
  by (simp add: remote_limit_def saveState_users merge_doc_def saveState_userData_limit
      or_obj_def empty_doc_def split: option.splits)

lemma saveState_keeps_mirror:
  assumes "uid st = Some u" and "remote_limit st u = d_monthlyLimit (userData st)"
  shows "limit_mirrored (saveState st) u \<and> remote_limit (saveState st) u = remote_limit st u"
  using assms
  by (simp add: limit_mirrored_def saveState_remote_limit saveState_userData_limit
      merge_field_def split: option.splits)

lemma remote_limit_cong:
  "users st' = users st \<Longrightarrow> remote_limit st' u = remote_limit st u"
  by (simp add: remote_limit_def)

lemma step_keeps_mirror:
  assumes "limit_mirrored st u"
  shows "limit_mirrored (step pd st act) u \<and> remote_limit (step pd st act) u = remote_limit st u"
proof -
  have base: "uid st = Some u" "remote_limit st u = d_monthlyLimit (userData st)"
    using assms by (simp_all add: limit_mirrored_def)
  have save: "limit_mirrored (saveState st') u \<and> remote_limit (saveState st') u = remote_limit st u"
    if "uid st' = uid st" "users st' = users st" "userData st' = userData st" for st'
    using that base saveState_keeps_mirror [of st' u]
    by (simp add: remote_limit_def)
  have toast: "limit_mirrored (showToast t st) u \<and> remote_limit (showToast t st) u = remote_limit st u"
    for t
    using base by (simp add: limit_mirrored_def remote_limit_def)
  show ?thesis
  proof (cases act)
    case (SaveTransaction now n a c s)
    then show ?thesis
      using save toast assms by (simp add: saveTransaction_def Let_def showToast_def)
  next
    case (AddFixedExpense n a)
    then show ?thesis
      using save assms by (simp add: addFixedExpense_def)
  next
    case (RemoveFixedExpense i)
    then show ?thesis
      using save by (simp add: removeFixedExpense_def)
  next
    case (SaveBudgetSettings v)
    then show ?thesis
      using save by (simp add: saveBudgetSettings_def showToast_def)
  next
    case (SaveGoal now n a d)
    then show ?thesis
      using save toast by (simp add: saveGoal_def Let_def showToast_def)
  next
    case (RemoveGoal g)
    then show ?thesis
      using save by (simp add: removeGoal_def showToast_def)
  next
    case (SaveLoan now t p a d)
    then show ?thesis
      using save by (simp add: saveLoan_def showToast_def)
  next
    case (SaveProfile n p)
    then show ?thesis
      using save by (simp add: saveProfile_def Let_def showToast_def)
  qed
qed

lemma run_keeps_mirror:
  "limit_mirrored st u \<Longrightarrow>
   limit_mirrored (run pd st acts) u \<and> remote_limit (run pd st acts) u = remote_limit st u"
proof (induction acts arbitrary: st)
  case Nil
  then show ?case by (simp add: run_def)
next
  case (Cons act acts)
  from step_keeps_mirror [OF Cons.prems, of pd act]
  have s: "limit_mirrored (step pd st act) u"
    and r: "remote_limit (step pd st act) u = remote_limit st u"
    by simp_all
  from Cons.IH [OF s] r show ?case by (simp add: run_def)
qed

lemma onAuth_mirror: "limit_mirrored (onAuthStateChanged now u start) u"
  by (simp add: limit_mirrored_def onAuthStateChanged_def firestore_ready_def Let_def
      loadUserDoc_def remote_limit_def split: option.splits)

lemma onAuth_first_limit:
  "users start u = None \<Longrightarrow> remote_limit (onAuthStateChanged now u start) u = Some (Fin 0)"
  by (simp add: onAuthStateChanged_def firestore_ready_def Let_def
      loadUserDoc_def remote_limit_def newUser_def)

text \<open>
  C10, as amended. \<^verbatim>\<open>saveState\<close> assigns the profile fields, the transactions, the
  fixed expenses, the goals, the loans, the chat groups and the group members of
  \<^verbatim>\<open>window.userData\<close>, and never its \<^verbatim>\<open>monthlyLimit\<close>; the document it commits is
  \<^verbatim>\<open>window.userData\<close> itself, so the committed document carries the \<^verbatim>\<open>monthlyLimit\<close>
  field that was hydrated from the remote document, with its hydrated value.
  Therefore, whatever the actions of a session, \<^verbatim>\<open>saveBudgetSettings\<close> included, the
  \<^verbatim>\<open>monthlyLimit\<close> of the remote document stays what it was at sign-in: 0 for an
  account created by \<^verbatim>\<open>loadUserDoc\<close>. The same holds of any handler that changes
  module variables only and then calls \<^verbatim>\<open>saveState\<close>, as the chat handlers do.
\<close>

theorem monthlyLimit_never_saved:
  "d_monthlyLimit (userData (saveState st)) = d_monthlyLimit (userData st)
   \<and> d_name (userData (saveState st)) \<noteq> None
   \<and> d_phone (userData (saveState st)) \<noteq> None
   \<and> d_avatar (userData (saveState st)) \<noteq> None
   \<and> d_transactions (userData (saveState st)) = Some (transactions st)
   \<and> d_fixedExpenses (userData (saveState st)) = Some (fixedExpenses st)
   \<and> d_goals (userData (saveState st)) = Some (activeGoals st)
   \<and> d_loans (userData (saveState st)) = Some (activeLoans st)
   \<and> d_chatGroups (userData (saveState st)) = Some (chatStore st)
   \<and> d_groupMembers (userData (saveState st)) = Some (groupMembers st)
   \<and> (uid st = Some u \<longrightarrow>
        users (saveState st) u
          = Some (merge_doc (or_obj (users st u) empty_doc) (userData (saveState st))))
   \<and> (limit_mirrored st u \<and> uid st' = uid st \<and> users st' = users st
        \<and> userData st' = userData st \<longrightarrow>
        limit_mirrored (saveState st') u \<and> remote_limit (saveState st') u = remote_limit st u)
   \<and> remote_limit (run parseDate (onAuthStateChanged now u start) acts) u
       = remote_limit (onAuthStateChanged now u start) u
   \<and> (users start u = None \<longrightarrow>
        remote_limit (run parseDate (onAuthStateChanged now u start) acts) u = Some (Fin 0))"
proof -
  have any: "limit_mirrored (saveState st') u \<and> remote_limit (saveState st') u = remote_limit st u"
    if "limit_mirrored st u" "uid st' = uid st" "users st' = users st"
      "userData st' = userData st"
    using that saveState_keeps_mirror [of st' u]
    by (simp add: limit_mirrored_def remote_limit_def saveState_userData_limit)
  show ?thesis
    using run_keeps_mirror [OF onAuth_mirror, of parseDate now u start acts] any
    by (simp add: saveState_userData_limit saveState_userData_fields saveState_users
        onAuth_first_limit)
qed

theorem monthlyLimit_never_saved_witness:
  "users (init_app Map.empty) ''u1'' = None
   \<and> monthlyLimit (run example_parseDate
         (onAuthStateChanged example_now ''u1'' (init_app Map.empty))
         [SaveBudgetSettings (Some ''50000'')]) = Fin 50000
   \<and> remote_limit (run example_parseDate
         (onAuthStateChanged example_now ''u1'' (init_app Map.empty))
         [SaveBudgetSettings (Some ''50000'')]) ''u1'' = Some (Fin 0)"
proof -
  have h: "users (init_app Map.empty) ''u1'' = None"
    by (simp add: init_app_def)
  have m: "monthlyLimit (run example_parseDate
         (onAuthStateChanged example_now ''u1'' (init_app Map.empty))
         [SaveBudgetSettings (Some ''50000'')]) = Fin 50000"
    by code_simp
  from monthlyLimit_never_saved [where start = "init_app Map.empty" and u = "''u1''"
      and now = example_now and parseDate = example_parseDate
      and acts = "[SaveBudgetSettings (Some ''50000'')]"] h
  have r: "remote_limit (run example_parseDate
         (onAuthStateChanged example_now ''u1'' (init_app Map.empty))
         [SaveBudgetSettings (Some ''50000'')]) ''u1'' = Some (Fin 0)"
    by blast
  from h m r show ?thesis by simp
qed

text \<open>
  The claim as stated fails on the field itself: after a first sign-in, the document
  that \<^verbatim>\<open>saveBudgetSettings\<close> commits has a \<^verbatim>\<open>monthlyLimit\<close> field, with the value 0
  of the default document, while the monthly limit in memory is 50000.
\<close>

theorem committed_document_counterexample:
  "monthlyLimit (saveBudgetSettings (Some ''50000'')
       (onAuthStateChanged example_now ''u1'' (init_app Map.empty))) = Fin 50000
   \<and> d_monthlyLimit (userData (saveBudgetSettings (Some ''50000'')
       (onAuthStateChanged example_now ''u1'' (init_app Map.empty)))) = Some (Fin 0)
   \<and> d_monthlyLimit (userData (saveBudgetSettings (Some ''50000'')
       (onAuthStateChanged example_now ''u1'' (init_app Map.empty)))) \<noteq> None"
  by code_simp

end
